theory Spec2Isabelle
  imports Complex_Main
begin

section \<open>Python exceptions\<close>

text \<open>
  Every exception the modelled code raises, catches or lets through.  The first four are
  built-in classes the code raises itself (with their message).  \<open>SellingApiException c m\<close>
  is an instance of \<open>sp_api.base.SellingApiException\<close> or of a subclass named \<open>c\<close>, with
  message \<open>m\<close>; \<open>LibraryError c m\<close> is an instance of any other subclass \<open>c\<close> of
  \<open>Exception\<close> raised by a library or by the remote call (\<open>MWSError\<close>, a transport error
  of \<open>requests\<close>, a parser error, ...).
\<close>

datatype py_exn =
    ValueError string
  | TypeError string
  | RuntimeError string
  | KeyError string
  | SellingApiException string string
  | LibraryError string string

text \<open>\<open>type(e).__name__\<close>\<close>

fun exn_class :: "py_exn \<Rightarrow> string" where
  "exn_class (ValueError m) = ''ValueError''"
| "exn_class (TypeError m) = ''TypeError''"
| "exn_class (RuntimeError m) = ''RuntimeError''"
| "exn_class (KeyError m) = ''KeyError''"
| "exn_class (SellingApiException c m) = c"
| "exn_class (LibraryError c m) = c"

text \<open>\<open>str(type(e))\<close>, that is \<open><class 'C'>\<close>\<close>

definition str_type :: "py_exn \<Rightarrow> string" where
  "str_type e = ''<class '' @ [CHR 0x27] @ exn_class e @ [CHR 0x27] @ ''>''"

text \<open>The \<open>ValueError\<close> of \<open>datetime.strptime\<close> on a string that is no date of the format
  \<open>%Y-%m-%d\<close>\<close>

definition strptime_error :: "string \<Rightarrow> py_exn" where
  "strptime_error ds =
     ValueError (''time data '' @ [CHR 0x27] @ ds @ [CHR 0x27] @ '' does not match format ''
                 @ [CHR 0x27] @ ''%Y-%m-%d'' @ [CHR 0x27])"

text \<open>\<open>isinstance(e, SellingApiException)\<close>, the filter of the \<open>except\<close> clauses of
  \<open>amazon_sp_report_lib.py\<close>\<close>

fun is_SellingApiException :: "py_exn \<Rightarrow> bool" where
  "is_SellingApiException (SellingApiException c m) = True"
| "is_SellingApiException e = False"

section \<open>amazon\_lib.py: order retrieval over MWS\<close>

subsection \<open>Enums and the log entry\<close>

datatype AmazonOrderRetrievalStatus =
  REQUEST_FAILED | CREATED_REQUEST | REQUEST_PROCESSING | SAVED_ORDERS | ORDERS_ALREADY_SAVED

datatype AmazonOrderSavingStatus = NOT_SAVED | SAVE_FAILED | EMPTY_SAVE | SAVED

text \<open>\<open>AmazonOrderRetrievalStatus.REQUEST_FAILED.name\<close>\<close>

definition REQUEST_FAILED_name :: string where
  "REQUEST_FAILED_name = ''REQUEST_FAILED''"

text \<open>
  \<open>AmazonReportLogEntry\<close>.  \<open>processing_status\<close> is the string Amazon reports (or the name
  of \<open>REQUEST_FAILED\<close>).  \<open>saving_status\<close> holds the \<open>.name\<close> of a member of
  \<open>AmazonOrderSavingStatus\<close>; the code writes and compares nothing but these four names, so
  the field is represented by the member itself.
\<close>

record AmazonReportLogEntry =
  submitted_date :: "string option"
  request_id :: "string option"
  report_id :: "string option"
  day :: string
  marketplace :: string
  processing_status :: string
  saving_status :: AmazonOrderSavingStatus
  last_err_type :: "string option"

subsection \<open>The collaborators: logger, output sink, MWS\<close>

text \<open>
  Modelled from the spec: \<open>AmazonReportLogger\<close> is a template whose two methods are
  \<open>pass\<close>; the client supplies the implementation.  Its docstrings (and the Tracker
  contract \<open>get\<close>/\<open>put\<close> of the specification) require that \<open>get_info(day, marketplace)\<close>
  returns exactly the entry that \<open>log_info\<close> last received for that day and marketplace,
  and \<open>None\<close> when there is none.  The model is that store.
\<close>

type_synonym AmazonReportLogger = "string \<times> string \<rightharpoonup> AmazonReportLogEntry"

definition get_info :: "AmazonReportLogger \<Rightarrow> string \<Rightarrow> string \<Rightarrow> AmazonReportLogEntry option" where
  "get_info lg d m = lg (d, m)"

definition log_info :: "AmazonReportLogger \<Rightarrow> AmazonReportLogEntry \<Rightarrow> AmazonReportLogger" where
  "log_info lg e = lg((day e, marketplace e) \<mapsto> e)"

text \<open>
  An order item of the fetched report, as far as \<open>__update_dataset\<close> looks at it: the
  optional \<open>ItemStatus\<close>, the \<open>SKU\<close>, and the exception (if any) that processing a shipped
  item raises (a missing key, a missing exchange rate, a number that does not parse).
  The quantities and revenues accumulated per SKU are floating point and are left out:
  a data frame is represented by its rows' SKUs, in insertion order.
\<close>

record order_item =
  ItemStatus :: "string option"
  SKU :: string
  item_raises :: "py_exn option"

type_synonym dataset = "string list"

definition update_dataset :: "dataset \<Rightarrow> order_item \<Rightarrow> py_exn + dataset" where
  "update_dataset ds it =
     (if ItemStatus it \<noteq> Some ''Shipped'' then Inr ds
      else case item_raises it of
             Some e \<Rightarrow> Inl e
           | None \<Rightarrow> Inr (if SKU it \<in> set ds then ds else ds @ [SKU it]))"

fun update_from_items :: "dataset \<Rightarrow> order_item list \<Rightarrow> py_exn + dataset" where
  "update_from_items ds [] = Inr ds"
| "update_from_items ds (it # its) =
     (case update_dataset ds it of
        Inl e \<Rightarrow> Inl e
      | Inr ds' \<Rightarrow> update_from_items ds' its)"

fun update_from_orders :: "dataset \<Rightarrow> order_item list list \<Rightarrow> py_exn + dataset" where
  "update_from_orders ds [] = Inr ds"
| "update_from_orders ds (items # os) =
     (case update_from_items ds items of
        Inl e \<Rightarrow> Inl e
      | Inr ds' \<Rightarrow> update_from_orders ds' os)"

text \<open>\<open>__build_df\<close>: \<open>None\<close> when no SKU was collected\<close>

definition build_df :: "order_item list list \<Rightarrow> py_exn + dataset option" where
  "build_df orders =
     (case update_from_orders [] orders of
        Inl e \<Rightarrow> Inl e
      | Inr ds \<Rightarrow> Inr (if length ds = 0 then None else Some ds))"

text \<open>
  What MWS and the client's \<open>save_orders\<close> do during one call of \<open>retrieve_orders\<close>.
  A remote call either raises (\<open>Inl\<close>) or returns; what it returns is given after
  \<open>xmltodict.parse\<close> and the fixed path into the response, whose failures are exceptions
  of the same \<open>try\<close> block and count as \<open>Inl\<close>.  \<open>mws_request_report\<close> and
  \<open>mws_get_report_request_list\<close> return the \<open>ReportRequestInfo\<close> dictionary;
  \<open>mws_get_report\<close> returns the \<open>Message\<close> of the envelope (its orders), or \<open>None\<close> when
  the envelope has no \<open>Message\<close>.
\<close>

record mws_env =
  now_pst :: string
  mws_request_report :: "string \<Rightarrow> string \<Rightarrow> string \<Rightarrow> string \<Rightarrow> py_exn + (string \<rightharpoonup> string)"
  mws_get_report_request_list :: "string option \<Rightarrow> py_exn + (string \<rightharpoonup> string)"
  mws_get_report :: "string option \<Rightarrow> py_exn + order_item list list option"
  save_orders_raises :: "dataset \<Rightarrow> py_exn option"

text \<open>
  Modelled from the spec: \<open>save_orders\<close> is the client's function.  The specification
  makes the commit of the output sink all-or-nothing: when \<open>save_orders\<close> raises, the
  sink is as before; when it returns, the whole data frame is in the sink.
\<close>

definition save_orders :: "mws_env \<Rightarrow> dataset list \<Rightarrow> dataset \<Rightarrow> py_exn + dataset list" where
  "save_orders env snk df =
     (case save_orders_raises env df of
        Some e \<Rightarrow> Inl e
      | None \<Rightarrow> Inr (snk @ [df]))"

record store =
  logger :: AmazonReportLogger
  sink :: "dataset list"

datatype mws_call =
    RequestReport string string string string
  | GetReportRequestList "string option"
  | GetReport "string option"

text \<open>
  The outcome of one call: what it returned or raised, the logger and sink afterwards,
  the remote calls it issued (in order), and the log entry it built or modified
  (\<open>None\<close> when it built none).
\<close>

record orders_out =
  o_result :: "py_exn + AmazonOrderRetrievalStatus"
  o_store :: store
  o_calls :: "mws_call list"
  o_entry :: "AmazonReportLogEntry option"

subsection \<open>AmazonOrderRetrieval.retrieve\_orders\<close>

record AmazonOrderRetrieval =
  marketplaces :: "string \<rightharpoonup> string"

definition REPORT_TYPE :: string where
  "REPORT_TYPE = ''_GET_XML_ALL_ORDERS_DATA_BY_ORDER_DATE_''"

text \<open>The \<open>except\<close> branch of the request creation: log the failure, raise again.\<close>

definition create_failed ::
  "mws_env \<Rightarrow> store \<Rightarrow> string \<Rightarrow> string \<Rightarrow> py_exn \<Rightarrow> mws_call list \<Rightarrow> orders_out" where
  "create_failed env st d m e cs =
     (let entry = \<lparr>submitted_date = Some (now_pst env), request_id = None, report_id = None,
                   day = d, marketplace = m, processing_status = REQUEST_FAILED_name,
                   saving_status = NOT_SAVED, last_err_type = Some (str_type e)\<rparr>
      in \<lparr>o_result = Inl e, o_store = st\<lparr>logger := log_info (logger st) entry\<rparr>,
          o_calls = cs, o_entry = Some entry\<rparr>)"

text \<open>
  The log entry of a created request.  Python evaluates the arguments left to right, and
  \<open>GeneratedReportId\<close> only when the status is \<open>_DONE_\<close>; a missing key raises \<open>KeyError\<close>
  (outside the \<open>try\<close>).
\<close>

definition created_entry ::
  "(string \<rightharpoonup> string) \<Rightarrow> string \<Rightarrow> string \<Rightarrow> py_exn + AmazonReportLogEntry" where
  "created_entry request_info d m =
     (case request_info ''SubmittedDate'' of
        None \<Rightarrow> Inl (KeyError ''SubmittedDate'')
      | Some sd \<Rightarrow>
     (case request_info ''ReportRequestId'' of
        None \<Rightarrow> Inl (KeyError ''ReportRequestId'')
      | Some rid \<Rightarrow>
     (case request_info ''ReportProcessingStatus'' of
        None \<Rightarrow> Inl (KeyError ''ReportProcessingStatus'')
      | Some ps \<Rightarrow>
     (if ps = ''_DONE_'' \<and> request_info ''GeneratedReportId'' = None
      then Inl (KeyError ''GeneratedReportId'')
      else Inr \<lparr>submitted_date = Some sd, request_id = Some rid,
                report_id = (if ps = ''_DONE_'' then request_info ''GeneratedReportId'' else None),
                day = d, marketplace = m, processing_status = ps,
                saving_status = NOT_SAVED, last_err_type = None\<rparr>))))"

definition create_request ::
  "mws_env \<Rightarrow> store \<Rightarrow> string \<Rightarrow> string \<Rightarrow> string \<Rightarrow> string \<Rightarrow> orders_out" where
  "create_request env st d m next_day marketplace_id =
     (let c1 = RequestReport REPORT_TYPE d next_day marketplace_id in
      case mws_request_report env REPORT_TYPE d next_day marketplace_id of
        Inl e \<Rightarrow> create_failed env st d m e [c1]
      | Inr request_response \<Rightarrow>
         (case request_response ''ReportRequestId'' of
            None \<Rightarrow> create_failed env st d m (KeyError ''ReportRequestId'') [c1]
          | Some rid \<Rightarrow>
             (let c2 = GetReportRequestList (Some rid) in
              case mws_get_report_request_list env (Some rid) of
                Inl e \<Rightarrow> create_failed env st d m e [c1, c2]
              | Inr request_info \<Rightarrow>
                 (case created_entry request_info d m of
                    Inl e \<Rightarrow> \<lparr>o_result = Inl e, o_store = st, o_calls = [c1, c2],
                              o_entry = None\<rparr>
                  | Inr entry \<Rightarrow>
                      \<lparr>o_result = Inr CREATED_REQUEST,
                       o_store = st\<lparr>logger := log_info (logger st) entry\<rparr>,
                       o_calls = [c1, c2], o_entry = Some entry\<rparr>))))"


text \<open>
  The \<open>try\<close> block of the status update, without its \<open>finally\<close>: how it ends and the
  local \<open>log_entry\<close> at that point.
\<close>

datatype poll_outcome = PollReturn AmazonOrderRetrievalStatus | PollRaise py_exn | PollDone

definition update_status ::
  "mws_env \<Rightarrow> AmazonReportLogEntry \<Rightarrow> poll_outcome \<times> AmazonReportLogEntry" where
  "update_status env log_entry =
     (case mws_get_report_request_list env (request_id log_entry) of
        Inl e \<Rightarrow> (PollRaise e, log_entry\<lparr>last_err_type := Some (str_type e)\<rparr>)
      | Inr request_info \<Rightarrow>
         (case request_info ''ReportProcessingStatus'' of
            None \<Rightarrow>
              (PollRaise (KeyError ''ReportProcessingStatus''),
               log_entry\<lparr>last_err_type := Some (str_type (KeyError ''ReportProcessingStatus''))\<rparr>)
          | Some ps \<Rightarrow>
             (let le1 = log_entry\<lparr>processing_status := ps\<rparr> in
              if ps \<noteq> ''_DONE_'' then (PollReturn REQUEST_PROCESSING, le1)
              else case request_info ''GeneratedReportId'' of
                     None \<Rightarrow>
                       (PollRaise (KeyError ''GeneratedReportId''),
                        le1\<lparr>last_err_type := Some (str_type (KeyError ''GeneratedReportId''))\<rparr>)
                   | Some gid \<Rightarrow> (PollDone, le1\<lparr>report_id := Some gid\<rparr>))))"

text \<open>The \<open>try\<close> block of the fetch, without its \<open>finally\<close>.\<close>

definition save_failed ::
  "AmazonReportLogEntry \<Rightarrow> dataset list \<Rightarrow> py_exn \<Rightarrow>
   (py_exn + AmazonOrderRetrievalStatus) \<times> AmazonReportLogEntry \<times> dataset list" where
  "save_failed log_entry snk e =
     (Inl e, log_entry\<lparr>saving_status := SAVE_FAILED, last_err_type := Some (str_type e)\<rparr>, snk)"

definition save_report ::
  "mws_env \<Rightarrow> AmazonReportLogEntry \<Rightarrow> dataset list \<Rightarrow>
   (py_exn + AmazonOrderRetrievalStatus) \<times> AmazonReportLogEntry \<times> dataset list" where
  "save_report env log_entry snk =
     (case mws_get_report env (report_id log_entry) of
        Inl e \<Rightarrow> save_failed log_entry snk e
      | Inr None \<Rightarrow> (Inr SAVED_ORDERS, log_entry\<lparr>saving_status := EMPTY_SAVE\<rparr>, snk)
      | Inr (Some orders) \<Rightarrow>
         (case build_df orders of
            Inl e \<Rightarrow> save_failed log_entry snk e
          | Inr None \<Rightarrow> (Inr SAVED_ORDERS, log_entry\<lparr>saving_status := EMPTY_SAVE\<rparr>, snk)
          | Inr (Some df) \<Rightarrow>
             (case save_orders env snk df of
                Inl e \<Rightarrow> save_failed log_entry snk e
              | Inr snk' \<Rightarrow> (Inr SAVED_ORDERS, log_entry\<lparr>saving_status := SAVED\<rparr>, snk'))))"

text \<open>The fetch with its \<open>finally\<close>: the entry is logged however the block ends.\<close>

definition fetch_and_log ::
  "mws_env \<Rightarrow> AmazonReportLogEntry \<Rightarrow> store \<Rightarrow> mws_call list \<Rightarrow> orders_out" where
  "fetch_and_log env log_entry st cs =
     (case save_report env log_entry (sink st) of
        (r, le', snk') \<Rightarrow>
          \<lparr>o_result = r, o_store = \<lparr>logger = log_info (logger st) le', sink = snk'\<rparr>,
           o_calls = cs @ [GetReport (report_id log_entry)], o_entry = Some le'\<rparr>)"

text \<open>
  \<open>retrieve_orders(day, marketplace)\<close>.  \<open>next_day_of\<close> is \<open>datetime.strptime\<close> with the
  format \<open>%Y-%m-%d\<close> followed by the addition of one day: \<open>None\<close> where it raises
  \<open>ValueError\<close>.
\<close>

definition retrieve_orders ::
  "(string \<Rightarrow> string option) \<Rightarrow> AmazonOrderRetrieval \<Rightarrow> mws_env \<Rightarrow> store \<Rightarrow> string \<Rightarrow> string
   \<Rightarrow> orders_out" where
  "retrieve_orders next_day_of self env st d m =
     (case next_day_of d of
        None \<Rightarrow> \<lparr>o_result = Inl (strptime_error d), o_store = st, o_calls = [], o_entry = None\<rparr>
      | Some next_day \<Rightarrow>
     (case marketplaces self m of
        None \<Rightarrow> \<lparr>o_result = Inl (KeyError m), o_store = st, o_calls = [], o_entry = None\<rparr>
      | Some marketplace_id \<Rightarrow>
     (case get_info (logger st) d m of
        None \<Rightarrow> create_request env st d m next_day marketplace_id
      | Some log_entry \<Rightarrow>
          if processing_status log_entry = REQUEST_FAILED_name
          then create_request env st d m next_day marketplace_id
          else if saving_status log_entry = SAVED
          then \<lparr>o_result = Inr ORDERS_ALREADY_SAVED, o_store = st, o_calls = [],
                o_entry = None\<rparr>
          else
            (let le0 = log_entry\<lparr>last_err_type := None\<rparr> in
             if processing_status le0 \<noteq> ''_DONE_'' then
               (case update_status env le0 of
                  (oc, le1) \<Rightarrow>
                    (let st1 = st\<lparr>logger := log_info (logger st) le1\<rparr>;
                         cs = [GetReportRequestList (request_id le0)]
                     in case oc of
                          PollReturn s \<Rightarrow>
                            \<lparr>o_result = Inr s, o_store = st1, o_calls = cs, o_entry = Some le1\<rparr>
                        | PollRaise e \<Rightarrow>
                            \<lparr>o_result = Inl e, o_store = st1, o_calls = cs, o_entry = Some le1\<rparr>
                        | PollDone \<Rightarrow> fetch_and_log env le1 st1 cs))
             else fetch_and_log env le0 st []))))"

text \<open>Repeated calls for one day and marketplace, one environment per call.\<close>

fun retrieve_orders_seq ::
  "(string \<Rightarrow> string option) \<Rightarrow> AmazonOrderRetrieval \<Rightarrow> mws_env list \<Rightarrow> store \<Rightarrow> string \<Rightarrow> string
   \<Rightarrow> orders_out list" where
  "retrieve_orders_seq next_day_of self [] st d m = []"
| "retrieve_orders_seq next_day_of self (env # envs) st d m =
     (let out = retrieve_orders next_day_of self env st d m
      in out # retrieve_orders_seq next_day_of self envs (o_store out) d m)"

section \<open>amazon\_sp\_report\_lib.py: tab report retrieval over the SP-API\<close>

subsection \<open>Constants\<close>

definition TAB_REPORT_TYPES :: "(string \<times> string) list" where
  "TAB_REPORT_TYPES =
    [
     (''Inventory Report'', ''GET_FLAT_FILE_OPEN_LISTINGS_DATA''),
     (''All Listings Report'', ''GET_MERCHANT_LISTINGS_ALL_DATA''),
     (''Active Listings Report'', ''GET_MERCHANT_LISTINGS_DATA''),
     (''Inactive Listings Report'', ''GET_MERCHANT_LISTINGS_INACTIVE_DATA''),
     (''Open Listings Report'', ''GET_MERCHANT_LISTINGS_DATA_BACK_COMPAT''),
     (''Open Listings Report Lite'', ''GET_MERCHANT_LISTINGS_DATA_LITE''),
     (''Open Listings Report Liter'', ''GET_MERCHANT_LISTINGS_DATA_LITER''),
     (''Canceled Listings Report'', ''GET_MERCHANT_CANCELLED_LISTINGS_DATA''),
     (''Listing Quality and Suppressed Listing Report'', ''GET_MERCHANT_LISTINGS_DEFECT_DATA''),
     (''Pan-European Eligibility: FBA ASINs'', ''GET_PAN_EU_OFFER_STATUS''),
     (''Pan-European Eligibility: Self-fulfilled ASINs'', ''GET_MFN_PAN_EU_OFFER_STATUS''),
     (''Global Expansion Opportunities Report'', ''GET_FLAT_FILE_GEO_OPPORTUNITIES''),
     (''Referral Fee Preview Report'', ''GET_REFERRAL_FEE_PREVIEW_REPORT''),
     (''Unshipped Orders Report'', ''GET_FLAT_FILE_ACTIONABLE_ORDER_DATA_SHIPPING''),
     (''Requested or Scheduled Flat File Order Report (Invoicing)'', ''GET_FLAT_FILE_ORDER_REPORT_DATA_INVOICING''),
     (''Requested or Scheduled Flat File Order Report (Shipping)'', ''GET_FLAT_FILE_ORDER_REPORT_DATA_SHIPPING''),
     (''Requested or Scheduled Flat File Order Report (Tax)'', ''GET_FLAT_FILE_ORDER_REPORT_DATA_TAX''),
     (''Flat File Orders By Last Update Report'', ''GET_FLAT_FILE_ALL_ORDERS_DATA_BY_LAST_UPDATE_GENERAL''),
     (''Flat File Orders By Order Date Report'', ''GET_FLAT_FILE_ALL_ORDERS_DATA_BY_ORDER_DATE_GENERAL''),
     (''Flat File Archived Orders Report'', ''GET_FLAT_FILE_ARCHIVED_ORDERS_DATA_BY_ORDER_DATE''),
     (''Flat File Pending Orders Report'', ''GET_FLAT_FILE_PENDING_ORDERS_DATA''),
     (''Flat File Returns Report by Return Date'', ''GET_FLAT_FILE_RETURNS_DATA_BY_RETURN_DATE''),
     (''Flat File Return Attributes Report by Return Date'', ''GET_FLAT_FILE_MFN_SKU_RETURN_ATTRIBUTES_REPORT''),
     (''Flat File Feedback Report'', ''GET_SELLER_FEEDBACK_DATA''),
     (''Flat File Settlement Report'', ''GET_V2_SETTLEMENT_REPORT_DATA_FLAT_FILE''),
     (''Flat File V2 Settlement Report'', ''GET_V2_SETTLEMENT_REPORT_DATA_FLAT_FILE_V2''),
     (''FBA Amazon Fulfilled Shipments Report'', ''GET_AMAZON_FULFILLED_SHIPMENTS_DATA_GENERAL''),
     (''FBA Amazon Fulfilled Shipments Report (Invoicing)'', ''GET_AMAZON_FULFILLED_SHIPMENTS_DATA_INVOICING''),
     (''FBA Amazon Fulfilled Shipments Report (Tax)'', ''GET_AMAZON_FULFILLED_SHIPMENTS_DATA_TAX''),
     (''Flat File All Orders Report by Last Update'', ''GET_FLAT_FILE_ALL_ORDERS_DATA_BY_LAST_UPDATE_GENERAL''),
     (''Flat File All Orders Report by Order Date'', ''GET_FLAT_FILE_ALL_ORDERS_DATA_BY_ORDER_DATE_GENERAL''),
     (''FBA Customer Shipment Sales Report'', ''GET_FBA_FULFILLMENT_CUSTOMER_SHIPMENT_SALES_DATA''),
     (''FBA Promotions Report'', ''GET_FBA_FULFILLMENT_CUSTOMER_SHIPMENT_PROMOTION_DATA''),
     (''FBA Customer Taxes'', ''GET_FBA_FULFILLMENT_CUSTOMER_TAXES_DATA''),
     (''Remote Fulfillment Eligibility'', ''GET_REMOTE_FULFILLMENT_ELIGIBILITY''),
     (''FBA Amazon Fulfilled Inventory Report'', ''GET_AFN_INVENTORY_DATA''),
     (''FBA Multi-Country Inventory Report'', ''GET_AFN_INVENTORY_DATA_BY_COUNTRY''),
     (''Inventory Ledger Report - Summary View'', ''GET_LEDGER_SUMMARY_VIEW_DATA''),
     (''Inventory Ledger Report - Detailed View'', ''GET_LEDGER_DETAIL_VIEW_DATA''),
     (''FBA Daily Inventory History Report'', ''GET_FBA_FULFILLMENT_CURRENT_INVENTORY_DATA''),
     (''FBA Monthly Inventory History Report'', ''GET_FBA_FULFILLMENT_MONTHLY_INVENTORY_DATA''),
     (''FBA Received Inventory Report'', ''GET_FBA_FULFILLMENT_INVENTORY_RECEIPTS_DATA''),
     (''FBA Reserved Inventory Report'', ''GET_RESERVED_INVENTORY_DATA''),
     (''FBA Inventory Event Detail Report'', ''GET_FBA_FULFILLMENT_INVENTORY_SUMMARY_DATA''),
     (''FBA Inventory Adjustments Report'', ''GET_FBA_FULFILLMENT_INVENTORY_ADJUSTMENTS_DATA''),
     (''FBA Inventory Health Report'', ''GET_FBA_FULFILLMENT_INVENTORY_HEALTH_DATA''),
     (''FBA Manage Inventory'', ''GET_FBA_MYI_UNSUPPRESSED_INVENTORY_DATA''),
     (''FBA Manage Inventory - Archived'', ''GET_FBA_MYI_ALL_INVENTORY_DATA''),
     (''Restock Inventory Report'', ''GET_RESTOCK_INVENTORY_RECOMMENDATIONS_REPORT''),
     (''FBA Inbound Performance Report'', ''GET_FBA_FULFILLMENT_INBOUND_NONCOMPLIANCE_DATA''),
     (''FBA Stranded Inventory Report'', ''GET_STRANDED_INVENTORY_UI_DATA''),
     (''FBA Bulk Fix Stranded Inventory Report'', ''GET_STRANDED_INVENTORY_LOADER_DATA''),
     (''FBA Inventory Age Report'', ''GET_FBA_INVENTORY_AGED_DATA''),
     (''FBA Manage Excess Inventory Report'', ''GET_EXCESS_INVENTORY_DATA''),
     (''FBA Storage Fees Report'', ''GET_FBA_STORAGE_FEE_CHARGES_DATA''),
     (''Get Report Exchange Data'', ''GET_PRODUCT_EXCHANGE_DATA''),
     (''FBA Fee Preview Report'', ''GET_FBA_ESTIMATED_FBA_FEES_TXT_DATA''),
     (''FBA Reimbursements Report'', ''GET_FBA_REIMBURSEMENTS_DATA''),
     (''FBA Long Term Storage Fee Charges Report'', ''GET_FBA_FULFILLMENT_LONGTERM_STORAGE_FEE_CHARGES_DATA''),
     (''FBA Returns Report'', ''GET_FBA_FULFILLMENT_CUSTOMER_RETURNS_DATA''),
     (''FBA Replacements Report'', ''GET_FBA_FULFILLMENT_CUSTOMER_SHIPMENT_REPLACEMENT_DATA''),
     (''FBA Recommended Removal Report'', ''GET_FBA_RECOMMENDED_REMOVAL_DATA''),
     (''FBA Removal Order Detail Report'', ''GET_FBA_FULFILLMENT_REMOVAL_ORDER_DETAIL_DATA''),
     (''FBA Removal Shipment Detail Report'', ''GET_FBA_FULFILLMENT_REMOVAL_SHIPMENT_DETAIL_DATA''),
     (''Small & Light Inventory Report'', ''GET_FBA_UNO_INVENTORY_DATA''),
     (''Sales Tax Report'', ''GET_FLAT_FILE_SALES_TAX_DATA''),
     (''Amazon VAT Transactions Report'', ''GET_VAT_TRANSACTION_DATA''),
     (''On Demand GST Merchant Tax Report B2B'', ''GET_GST_MTR_B2B_CUSTOM''),
     (''On Demand GST Merchant Tax Report B2C'', ''GET_GST_MTR_B2C_CUSTOM''),
     (''EasyShip Picked Up Report'', ''GET_EASYSHIP_PICKEDUP''),
     (''EasyShip Waiting for Pick Up Report'', ''GET_EASYSHIP_WAITING_FOR_PICKUP'')
    ]"

definition NA_MARKETPLACE_COUNTRY_CODESET :: "string set" where
  "NA_MARKETPLACE_COUNTRY_CODESET = {''US'', ''CA'', ''BR'', ''MX''}"

definition EUR_MARKETPLACE_COUNTRY_CODESET :: "string set" where
  "EUR_MARKETPLACE_COUNTRY_CODESET =
     {''ES'', ''GB'', ''FR'', ''NL'', ''DE'', ''IT'', ''SE'', ''TR'', ''AE'', ''IN'', ''UK''}"

text \<open>\<open>report_type_name in TAB_REPORT_TYPES\<close>; \<open>None\<close> is not a key.\<close>

definition in_TAB_REPORT_TYPES :: "string option \<Rightarrow> bool" where
  "in_TAB_REPORT_TYPES n =
     (case n of None \<Rightarrow> False | Some name \<Rightarrow> map_of TAB_REPORT_TYPES name \<noteq> None)"

datatype SpReportTrackingStatus =
  REPORT_CREATED | DOCUMENTED_RETURNED | UPDATED_STATUS | DONE_NOTHING | EXCEPTION_OCCURRED

datatype RequestType = CREATE_REPORT | GET_REPORT | GET_REPORT_DOC

text \<open>\<open>__WAITING_STATUS\<close>\<close>

definition WAITING_STATUS :: "string option set" where
  "WAITING_STATUS = {None, Some ''IN_QUEUE'', Some ''IN_PROGRESS''}"

text \<open>\<open>str(e)\<close> of an exception built from one message\<close>

fun exn_str :: "py_exn \<Rightarrow> string" where
  "exn_str (ValueError m) = m"
| "exn_str (TypeError m) = m"
| "exn_str (RuntimeError m) = m"
| "exn_str (KeyError m) = [CHR 0x27] @ m @ [CHR 0x27]"
| "exn_str (SellingApiException c m) = m"
| "exn_str (LibraryError c m) = m"

definition MSG_NO_TYPE_NAME :: string where
  "MSG_NO_TYPE_NAME = ''Must specify report type name in either object construction or via report_type_name. Both cannot be None.''"

definition MSG_NO_CREDENTIALS :: string where
  "MSG_NO_CREDENTIALS = ''Must specify credentials in either object construction or via credentials. Both cannot be None.''"

definition MSG_NO_REPORT_ID :: "string \<times> string \<times> string \<times> string \<Rightarrow> string" where
  "MSG_NO_REPORT_ID k =
     (case k of (a, b, c, d) \<Rightarrow>
        ''Cannot retrieve status/document without a report ID. Check errors for (''
        @ a @ '','' @ b @ '','' @ c @ '','' @ d @ '') in your tracker.'')"

subsection \<open>DictTracker\<close>

text \<open>
  The tracker of the repository that keeps its entries in a dictionary.  An entry is the
  inner dictionary with the keys \<open>ReportId\<close>, \<open>Errors\<close>, \<open>Status\<close> and \<open>DocumentId\<close>.
  \<open>self.d[key]\<close> raises \<open>KeyError\<close> on a key that is not tracked.
\<close>

record tracker_entry =
  ReportId :: "string option"
  Errors :: "string option"
  Status :: "string option"
  DocumentId :: "string option"

type_synonym report_key = "string \<times> string \<times> string \<times> string"

type_synonym DictTracker = "report_key \<rightharpoonup> tracker_entry"

definition key_str :: "report_key \<Rightarrow> string" where
  "key_str k = (case k of (a, b, c, d) \<Rightarrow> a @ '', '' @ b @ '', '' @ c @ '', '' @ d)"

definition init_report_tracking ::
  "DictTracker \<Rightarrow> report_key \<Rightarrow> string option \<Rightarrow> string option \<Rightarrow> DictTracker" where
  "init_report_tracking d k rid errs =
     d(k \<mapsto> \<lparr>ReportId = rid, Errors = errs, Status = None, DocumentId = None\<rparr>)"

definition is_report_created :: "DictTracker \<Rightarrow> report_key \<Rightarrow> bool" where
  "is_report_created d k = (d k \<noteq> None)"

definition get_report_id :: "DictTracker \<Rightarrow> report_key \<Rightarrow> py_exn + string option" where
  "get_report_id d k =
     (case d k of None \<Rightarrow> Inl (KeyError (key_str k)) | Some e \<Rightarrow> Inr (ReportId e))"

definition get_report_status :: "DictTracker \<Rightarrow> report_key \<Rightarrow> py_exn + string option" where
  "get_report_status d k =
     (case d k of None \<Rightarrow> Inl (KeyError (key_str k)) | Some e \<Rightarrow> Inr (Status e))"

definition DictTracker_update_report_status ::
  "DictTracker \<Rightarrow> report_key \<Rightarrow> string option \<Rightarrow> string option \<Rightarrow> py_exn + DictTracker" where
  "DictTracker_update_report_status d k status errs =
     (case d k of
        None \<Rightarrow> Inl (KeyError (key_str k))
      | Some e \<Rightarrow> Inr (d(k \<mapsto> e\<lparr>Status := status, Errors := errs\<rparr>)))"

definition update_report_document_id ::
  "DictTracker \<Rightarrow> report_key \<Rightarrow> string option \<Rightarrow> py_exn + DictTracker" where
  "update_report_document_id d k doc_id =
     (case d k of
        None \<Rightarrow> Inl (KeyError (key_str k))
      | Some e \<Rightarrow> Inr (d(k \<mapsto> e\<lparr>DocumentId := doc_id\<rparr>)))"

definition get_report_document_id :: "DictTracker \<Rightarrow> report_key \<Rightarrow> py_exn + string option" where
  "get_report_document_id d k =
     (case d k of None \<Rightarrow> Inl (KeyError (key_str k)) | Some e \<Rightarrow> Inr (DocumentId e))"

subsection \<open>The retrieval object\<close>

text \<open>
  The attributes of \<open>SpTabReportRetrieval\<close>; credentials are an opaque string.  The six
  attributes of the rate limiter do not exist before \<open>bulk_mode()\<close> creates them;
  \<open>__wait\<close> reads them in bulk mode only, so the value they have here before that is
  never read.  Times are seconds as real numbers (\<open>time.time()\<close> is a float).
\<close>

record SpTabReportRetrieval =
  creds :: "string option"
  rep :: "string option"
  tracker :: DictTracker
  type_name :: "string option"
  bulk :: bool
  report_create_left :: int
  get_report_left :: int
  get_report_doc_left :: int
  t_last_report_create :: real
  t_last_get_report :: real
  t_last_get_report_doc :: real

text \<open>What is passed as \<open>tracker\<close>: a \<open>DictTracker\<close>, or an object that is no
  \<open>SpReportTracker\<close> (with the text of its type).\<close>

datatype tracker_arg = ATracker DictTracker | NotATracker string

definition custom_mode :: "SpTabReportRetrieval \<Rightarrow> SpTabReportRetrieval" where
  "custom_mode self = self\<lparr>bulk := False\<rparr>"

definition bulk_mode :: "SpTabReportRetrieval \<Rightarrow> SpTabReportRetrieval" where
  "bulk_mode self =
     self\<lparr>bulk := True, report_create_left := 15, get_report_left := 15,
          get_report_doc_left := 15, t_last_report_create := -1, t_last_get_report := -1,
          t_last_get_report_doc := -1\<rparr>"

definition str_opt :: "string option \<Rightarrow> string" where
  "str_opt n = (case n of None \<Rightarrow> ''None'' | Some s \<Rightarrow> s)"

text \<open>\<open>__init__\<close>\<close>

definition init ::
  "tracker_arg \<Rightarrow> string option \<Rightarrow> string option \<Rightarrow> py_exn + SpTabReportRetrieval" where
  "init trk credentials report_type_name =
     (if \<not> in_TAB_REPORT_TYPES report_type_name
      then Inl (ValueError (''Invalid Tab report type name '' @ str_opt report_type_name))
      else case trk of
             NotATracker ty \<Rightarrow>
               Inl (TypeError (''Tracker must be an instance of SpReportTracker. Got '' @ ty @ ''.''))
           | ATracker d \<Rightarrow>
               Inr (custom_mode
                 \<lparr>creds = credentials, rep = None, tracker = d, type_name = report_type_name,
                  bulk = False, report_create_left = 0, get_report_left = 0,
                  get_report_doc_left = 0, t_last_report_create = 0, t_last_get_report = 0,
                  t_last_get_report_doc = 0\<rparr>))"

subsection \<open>The rate limiter \_\_wait\<close>

text \<open>
  \<open>__wait(req_type)\<close>, given the reading \<open>now\<close> of \<open>time.time()\<close> at its entry.  It
  returns the object afterwards and the durations it sleeps, in order.
\<close>

definition wait :: "SpTabReportRetrieval \<Rightarrow> RequestType \<Rightarrow> real \<Rightarrow> SpTabReportRetrieval \<times> real list" where
  "wait self req_type now =
     (if \<not> bulk self then (self, [])
      else case req_type of
        CREATE_REPORT \<Rightarrow>
          (let sl = (if t_last_report_create self > 0 \<and> now - t_last_report_create self < 60
                     then [60 - (now - t_last_report_create self)] else []);
               self1 = self\<lparr>t_last_report_create := now,
                            report_create_left := report_create_left self - 1\<rparr>
           in if report_create_left self1 = 0
              then (self1\<lparr>report_create_left := 15\<rparr>, sl @ [60])
              else (self1, sl))
      | GET_REPORT \<Rightarrow>
          (let sl = (if t_last_get_report self > 0 \<and> now - t_last_get_report self < 1 / 2
                     then [1 / 2 - (now - t_last_get_report self)] else []);
               self1 = self\<lparr>t_last_get_report := now,
                            get_report_left := get_report_left self - 1\<rparr>
           in if get_report_left self1 = 0
              then (self1\<lparr>get_report_left := 15\<rparr>, sl @ [60])
              else (self1, sl))
      | GET_REPORT_DOC \<Rightarrow>
          (let sl = (if t_last_get_report_doc self > 0 \<and> now - t_last_get_report_doc self < 60
                     then [60 - (now - t_last_get_report_doc self)] else []);
               self1 = self\<lparr>t_last_get_report_doc := now,
                            get_report_doc_left := get_report_doc_left self - 1\<rparr>
           in if get_report_doc_left self1 = 0
              then (self1\<lparr>get_report_doc_left := 15\<rparr>, sl @ [60])
              else (self1, sl)))"

text \<open>
  The clock around \<open>__wait\<close>: \<open>time.sleep(d)\<close> advances it by \<open>d\<close>, and the request is
  issued when \<open>__wait\<close> returns.  Each element of the list is the time that passes
  between one request being issued and the next call of \<open>__wait\<close> reading the clock (the
  duration of the request and whatever the caller does in between).  The result is the
  time at which each request is issued.
\<close>

fun issue_times :: "SpTabReportRetrieval \<Rightarrow> RequestType \<Rightarrow> real \<Rightarrow> real list \<Rightarrow> real list" where
  "issue_times self req_type clock [] = []"
| "issue_times self req_type clock (g # gs) =
     (case wait self req_type (clock + g) of
        (self', sl) \<Rightarrow>
          (clock + g + sum_list sl) # issue_times self' req_type (clock + g + sum_list sl) gs)"

subsection \<open>The SP-API during one call\<close>

record api_response =
  payload :: "string \<rightharpoonup> string"
  errors :: "string option"

text \<open>
  What the environment does during one call of \<open>retrieve_report\<close>: the clock reading at
  the \<open>__wait\<close> of each request type, the three requests of \<open>sp_api.api.Reports\<close> (each
  raises or returns a response), \<open>pandas.read_csv\<close> (a data frame is its list of rows),
  \<open>datetime.strptime(...).isoformat()\<close> (\<open>None\<close> where it raises \<open>ValueError\<close>) and the
  marketplace id of a country code.
\<close>

record sp_env =
  time_at :: "RequestType \<Rightarrow> real"
  sp_create_report :: "string \<Rightarrow> string \<Rightarrow> string \<Rightarrow> string \<Rightarrow> py_exn + api_response"
  sp_get_report :: "string \<Rightarrow> py_exn + api_response"
  sp_get_report_document :: "string \<Rightarrow> py_exn + api_response"
  read_csv :: "string \<Rightarrow> py_exn + string list"
  isoformat_of :: "string \<Rightarrow> string option"
  marketplace_id_of :: "string \<Rightarrow> string"

datatype sp_event =
    Sleep real
  | CreateReport string string string string
  | GetReportRequest string
  | GetReportDocument string

text \<open>The second component of what \<open>retrieve_report\<close> returns.\<close>

datatype out_value = OutNone | OutStatus "string option" | OutDocument "string list"

record report_out =
  r_result :: "py_exn + SpReportTrackingStatus \<times> out_value"
  r_self :: SpTabReportRetrieval
  r_events :: "sp_event list"

subsection \<open>retrieve\_report and its helpers\<close>

text \<open>\<open>output_report_doc\<close> of the base class returns the data frame.\<close>

definition output_report_doc :: "string \<Rightarrow> string \<Rightarrow> string \<Rightarrow> string \<Rightarrow> string list \<Rightarrow> string list" where
  "output_report_doc mkt start_ds end_ds report_type_name df = df"

definition get_document_df ::
  "SpTabReportRetrieval \<Rightarrow> sp_env \<Rightarrow> report_key \<Rightarrow> string
   \<Rightarrow> (py_exn + string list) \<times> SpTabReportRetrieval \<times> sp_event list" where
  "get_document_df self env k doc_id =
     (case wait self GET_REPORT_DOC (time_at env GET_REPORT_DOC) of
        (self1, sl) \<Rightarrow>
          (let ev = map Sleep sl @ [GetReportDocument doc_id] in
           case sp_get_report_document env doc_id of
             Inl e \<Rightarrow> (Inl e, self1, ev)
           | Inr doc \<Rightarrow>
              (case payload doc ''document'' of
                 None \<Rightarrow> (Inl (KeyError ''document''), self1, ev)
               | Some txt \<Rightarrow>
                  (case read_csv env txt of
                     Inl e \<Rightarrow> (Inl e, self1, ev)
                   | Inr df \<Rightarrow>
                      (case k of (report_type_name, mkt, start_ds, end_ds) \<Rightarrow>
                         (Inr (output_report_doc mkt start_ds end_ds report_type_name df),
                          self1, ev))))))"

text \<open>
  \<open>__create_report\<close>.  The request and what follows it in the \<open>try\<close> block: a
  \<open>SellingApiException\<close> is recorded in the tracker and reported by the returned status,
  any other exception leaves the method.
\<close>

definition create_report_request ::
  "SpTabReportRetrieval \<Rightarrow> sp_env \<Rightarrow> report_key \<Rightarrow> string \<Rightarrow> string \<Rightarrow> string \<Rightarrow> string
   \<Rightarrow> report_out" where
  "create_report_request self env k report_type start_iso end_iso mplaceid =
     (case wait self CREATE_REPORT (time_at env CREATE_REPORT) of
        (self1, sl) \<Rightarrow>
          (let ev = map Sleep sl @ [CreateReport report_type start_iso end_iso mplaceid] in
           (case sp_create_report env report_type start_iso end_iso mplaceid of
              Inl e \<Rightarrow>
                (if is_SellingApiException e
                 then \<lparr>r_result = Inr (EXCEPTION_OCCURRED, OutNone),
                       r_self = self1\<lparr>tracker := init_report_tracking (tracker self1) k None
                                  (Some (''['' @ str_type e @ ''] '' @ exn_str e))\<rparr>,
                       r_events = ev\<rparr>
                 else \<lparr>r_result = Inl e, r_self = self1, r_events = ev\<rparr>)
            | Inr create_res \<Rightarrow>
                (case payload create_res ''reportId'' of
                   None \<Rightarrow>
                     \<lparr>r_result = Inl (KeyError ''reportId''), r_self = self1, r_events = ev\<rparr>
                 | Some rid \<Rightarrow>
                     \<lparr>r_result = Inr (REPORT_CREATED, OutNone),
                      r_self = self1\<lparr>tracker := init_report_tracking (tracker self1) k
                                 (Some rid) (errors create_res)\<rparr>,
                      r_events = ev\<rparr>))))"

definition create_report :: "SpTabReportRetrieval \<Rightarrow> sp_env \<Rightarrow> report_key \<Rightarrow> report_out" where
  "create_report self env k =
     (case k of (report_type_name, mkt, start_ds, end_ds) \<Rightarrow>
       (case map_of TAB_REPORT_TYPES report_type_name of
          None \<Rightarrow>
            \<lparr>r_result = Inl (ValueError (''Invalid Tab report type name '' @ report_type_name)),
             r_self = self, r_events = []\<rparr>
        | Some report_type \<Rightarrow>
           (if mkt \<notin> NA_MARKETPLACE_COUNTRY_CODESET \<and> mkt \<notin> EUR_MARKETPLACE_COUNTRY_CODESET
            then \<lparr>r_result = Inl (ValueError (''Invalid marketplace '' @ mkt)),
                  r_self = self, r_events = []\<rparr>
            else
             (case isoformat_of env start_ds of
                None \<Rightarrow> \<lparr>r_result = Inl (strptime_error start_ds), r_self = self, r_events = []\<rparr>
              | Some start_iso \<Rightarrow>
                 (case isoformat_of env end_ds of
                    None \<Rightarrow> \<lparr>r_result = Inl (strptime_error end_ds), r_self = self, r_events = []\<rparr>
                  | Some end_iso \<Rightarrow>
                      create_report_request self env k report_type start_iso end_iso
                        (marketplace_id_of env mkt))))))"

text \<open>The \<open>except SellingApiException\<close> clause of \<open>__update_report_status\<close>; any other
  exception leaves the method.\<close>

definition status_exception ::
  "SpTabReportRetrieval \<Rightarrow> report_key \<Rightarrow> py_exn \<Rightarrow> sp_event list \<Rightarrow> report_out" where
  "status_exception self k e ev =
     (if is_SellingApiException e
      then (case get_report_status (tracker self) k of
              Inl e' \<Rightarrow> \<lparr>r_result = Inl e', r_self = self, r_events = ev\<rparr>
            | Inr status \<Rightarrow>
               (case DictTracker_update_report_status (tracker self) k status
                       (Some (exn_class e @ exn_str e)) of
                  Inl e' \<Rightarrow> \<lparr>r_result = Inl e', r_self = self, r_events = ev\<rparr>
                | Inr d' \<Rightarrow>
                    \<lparr>r_result = Inr (EXCEPTION_OCCURRED, OutStatus status),
                     r_self = self\<lparr>tracker := d'\<rparr>, r_events = ev\<rparr>))
      else \<lparr>r_result = Inl e, r_self = self, r_events = ev\<rparr>)"

text \<open>
  \<open>__update_report_status\<close>, in three parts: what follows a status \<open>DONE\<close>, what follows
  the response of the status request, and the method from its start.
\<close>

definition status_done ::
  "SpTabReportRetrieval \<Rightarrow> sp_env \<Rightarrow> report_key \<Rightarrow> api_response \<Rightarrow> sp_event list \<Rightarrow> report_out" where
  "status_done self env k res ev1 =
     (case payload res ''reportDocumentId'' of
        None \<Rightarrow> status_exception self k (KeyError ''reportDocumentId'') ev1
      | Some doc_id \<Rightarrow>
         (case update_report_document_id (tracker self) k (Some doc_id) of
            Inl e \<Rightarrow> status_exception self k e ev1
          | Inr d3 \<Rightarrow>
             (case get_document_df (self\<lparr>tracker := d3\<rparr>) env k doc_id of
                (r, self4, ev2) \<Rightarrow>
                  (case r of
                     Inl e \<Rightarrow> status_exception self4 k e (ev1 @ ev2)
                   | Inr df \<Rightarrow>
                       \<lparr>r_result = Inr (DOCUMENTED_RETURNED, OutDocument df), r_self = self4,
                        r_events = ev1 @ ev2\<rparr>))))"

definition status_response ::
  "SpTabReportRetrieval \<Rightarrow> sp_env \<Rightarrow> report_key \<Rightarrow> api_response \<Rightarrow> sp_event list \<Rightarrow> report_out" where
  "status_response self env k res ev1 =
     (case payload res ''processingStatus'' of
        None \<Rightarrow> status_exception self k (KeyError ''processingStatus'') ev1
      | Some status \<Rightarrow>
         (case DictTracker_update_report_status (tracker self) k (Some status) (errors res) of
            Inl e \<Rightarrow> status_exception self k e ev1
          | Inr d2 \<Rightarrow>
             (if status = ''DONE''
              then status_done (self\<lparr>tracker := d2\<rparr>) env k res ev1
              else \<lparr>r_result = Inr (UPDATED_STATUS, OutStatus (Some status)),
                    r_self = self\<lparr>tracker := d2\<rparr>, r_events = ev1\<rparr>)))"

definition update_report_status ::
  "SpTabReportRetrieval \<Rightarrow> sp_env \<Rightarrow> report_key \<Rightarrow> report_out" where
  "update_report_status self env k =
     (case wait self GET_REPORT (time_at env GET_REPORT) of
        (self1, sl) \<Rightarrow>
          (case get_report_id (tracker self1) k of
             Inl e \<Rightarrow> status_exception self1 k e (map Sleep sl)
           | Inr rid_opt \<Rightarrow>
              (case rid_opt of
                 None \<Rightarrow> status_exception self1 k (RuntimeError (MSG_NO_REPORT_ID k)) (map Sleep sl)
               | Some rid \<Rightarrow>
                  (if rid = []
                   then status_exception self1 k (RuntimeError (MSG_NO_REPORT_ID k)) (map Sleep sl)
                   else
                    (case sp_get_report env rid of
                       Inl e \<Rightarrow>
                         status_exception self1 k e (map Sleep sl @ [GetReportRequest rid])
                     | Inr res \<Rightarrow>
                         status_response self1 env k res
                           (map Sleep sl @ [GetReportRequest rid]))))))"

text \<open>
  \<open>retrieve_report(marketplace, start_ds, end_ds, credentials, report_type_name)\<close>: the
  choice of the report type name and of the credentials, then the four cases on what the
  tracker holds.
\<close>

definition choose_type_name :: "SpTabReportRetrieval \<Rightarrow> string option \<Rightarrow> py_exn + string" where
  "choose_type_name self report_type_name =
     (case report_type_name of
        None \<Rightarrow> (case type_name self of
                    None \<Rightarrow> Inl (RuntimeError MSG_NO_TYPE_NAME)
                  | Some n \<Rightarrow> Inr n)
      | Some n \<Rightarrow> Inr n)"

definition choose_credentials :: "SpTabReportRetrieval \<Rightarrow> string option \<Rightarrow> py_exn + string" where
  "choose_credentials self credentials =
     (case credentials of
        None \<Rightarrow> (case creds self of
                    None \<Rightarrow> Inl (RuntimeError MSG_NO_CREDENTIALS)
                  | Some c \<Rightarrow> Inr c)
      | Some c \<Rightarrow> Inr c)"

definition retrieve_tracked :: "SpTabReportRetrieval \<Rightarrow> sp_env \<Rightarrow> report_key \<Rightarrow> report_out" where
  "retrieve_tracked self env k =
     (if \<not> is_report_created (tracker self) k then create_report self env k
      else
       (case get_report_status (tracker self) k of
          Inl e \<Rightarrow> \<lparr>r_result = Inl e, r_self = self, r_events = []\<rparr>
        | Inr status \<Rightarrow>
           (if status \<in> WAITING_STATUS then update_report_status self env k
            else
             (case get_report_document_id (tracker self) k of
                Inl e \<Rightarrow> \<lparr>r_result = Inl e, r_self = self, r_events = []\<rparr>
              | Inr doc_opt \<Rightarrow>
                 (case doc_opt of
                    None \<Rightarrow>
                      \<lparr>r_result = Inr (DONE_NOTHING, OutNone), r_self = self, r_events = []\<rparr>
                  | Some doc_id \<Rightarrow>
                     (case get_document_df self env k doc_id of
                        (r, self1, ev) \<Rightarrow>
                          (case r of
                             Inl e \<Rightarrow> \<lparr>r_result = Inl e, r_self = self1, r_events = ev\<rparr>
                           | Inr df \<Rightarrow>
                               \<lparr>r_result = Inr (DOCUMENTED_RETURNED, OutDocument df),
                                r_self = self1, r_events = ev\<rparr>)))))))"

definition retrieve_report ::
  "SpTabReportRetrieval \<Rightarrow> sp_env \<Rightarrow> string \<Rightarrow> string \<Rightarrow> string \<Rightarrow> string option \<Rightarrow> string option
   \<Rightarrow> report_out" where
  "retrieve_report self env mkt start_ds end_ds credentials report_type_name =
     (case choose_type_name self report_type_name of
        Inl e \<Rightarrow> \<lparr>r_result = Inl e, r_self = self, r_events = []\<rparr>
      | Inr name \<Rightarrow>
         (case choose_credentials self credentials of
            Inl e \<Rightarrow> \<lparr>r_result = Inl e, r_self = self, r_events = []\<rparr>
          | Inr c \<Rightarrow>
              retrieve_tracked (self\<lparr>rep := Some c\<rparr>) env (name, mkt, start_ds, end_ds)))"


section \<open>amazon\_sp\_lib.py: the request pacing of SP\_Orders\_Retrieval\<close>

text \<open>The attributes of \<open>SP_Orders_Retrieval\<close> that \<open>__make_request\<close> uses.\<close>

record SP_Orders_Retrieval =
  request_pause_time :: real
  request_burst_size :: int
  burst_pause_time :: real
  req_count :: int

text \<open>The request processing settings of \<open>__init__\<close>: a keyword argument, or its default.\<close>

definition SP_Orders_Retrieval_init ::
  "real option \<Rightarrow> int option \<Rightarrow> real option \<Rightarrow> SP_Orders_Retrieval" where
  "SP_Orders_Retrieval_init pause burst burst_pause =
     \<lparr>request_pause_time = (case pause of Some p \<Rightarrow> p | None \<Rightarrow> 2 / 10),
      request_burst_size = (case burst of Some b \<Rightarrow> b | None \<Rightarrow> 15),
      burst_pause_time = (case burst_pause of Some p \<Rightarrow> p | None \<Rightarrow> 30),
      req_count = 0\<rparr>"

text \<open>
  \<open>__make_request\<close>, given what the request does (raise, or return its payload): the
  result, the object afterwards and the durations slept before the request, in order.
\<close>

definition make_request ::
  "SP_Orders_Retrieval \<Rightarrow> py_exn + 'p \<Rightarrow> (py_exn + 'p) \<times> SP_Orders_Retrieval \<times> real list" where
  "make_request self res =
     (let (self1, sl) =
            (if req_count self = request_burst_size self
             then (self\<lparr>req_count := 0\<rparr>, [burst_pause_time self])
             else (self, []));
          self2 = self1\<lparr>req_count := req_count self1 + 1\<rparr>
      in (res, self2, sl @ [request_pause_time self2]))"

section \<open>The rate limiter as the specification words it\<close>

text \<open>
  A rate window of one operation class, and the three steps of the specification for
  one permitted request that asks for its permit at time \<open>now\<close>: the window afterwards
  and the durations blocked.  Step 1 is \<open>spec_spacing_block\<close>.  Step 2 comes after the
  block of step 1, so the time it records is the time at which the block is over.
\<close>

record RateWindow =
  burstCapacity :: int
  remainingInBurst :: int
  minSpacing :: real
  lastRequestTime :: "real option"

definition spec_spacing_block :: "RateWindow \<Rightarrow> real \<Rightarrow> real list" where
  "spec_spacing_block w now =
     (case lastRequestTime w of
        None \<Rightarrow> []
      | Some t \<Rightarrow> if now - t < minSpacing w then [minSpacing w - (now - t)] else [])"

definition spec_permit :: "real \<Rightarrow> RateWindow \<Rightarrow> real \<Rightarrow> RateWindow \<times> real list" where
  "spec_permit cooldown w now =
     (let blocked = spec_spacing_block w now;
          w1 = w\<lparr>lastRequestTime := Some (now + sum_list blocked),
                 remainingInBurst := remainingInBurst w - 1\<rparr>
      in if remainingInBurst w1 = 0
         then (w1\<lparr>remainingInBurst := burstCapacity w\<rparr>, blocked @ [cooldown])
         else (w1, blocked))"

text \<open>The window of a request type that the attributes of the retrieval object hold.\<close>

definition window_of :: "SpTabReportRetrieval \<Rightarrow> RequestType \<Rightarrow> RateWindow" where
  "window_of self req_type =
     (case req_type of
        CREATE_REPORT \<Rightarrow>
          \<lparr>burstCapacity = 15, remainingInBurst = report_create_left self, minSpacing = 60,
           lastRequestTime = (if t_last_report_create self > 0
                              then Some (t_last_report_create self) else None)\<rparr>
      | GET_REPORT \<Rightarrow>
          \<lparr>burstCapacity = 15, remainingInBurst = get_report_left self, minSpacing = 1 / 2,
           lastRequestTime = (if t_last_get_report self > 0
                              then Some (t_last_get_report self) else None)\<rparr>
      | GET_REPORT_DOC \<Rightarrow>
          \<lparr>burstCapacity = 15, remainingInBurst = get_report_doc_left self, minSpacing = 60,
           lastRequestTime = (if t_last_get_report_doc self > 0
                              then Some (t_last_get_report_doc self) else None)\<rparr>)"

section \<open>Predicates on the tracked state\<close>

definition keyed :: "AmazonReportLogger \<Rightarrow> string \<Rightarrow> string \<Rightarrow> bool" where
  "keyed lg d m = (case lg (d, m) of None \<Rightarrow> True | Some e \<Rightarrow> day e = d \<and> marketplace e = m)"

definition tracked_ok :: "AmazonReportLogger \<Rightarrow> string \<Rightarrow> string \<Rightarrow> bool" where
  "tracked_ok lg d m =
     (case lg (d, m) of
        None \<Rightarrow> True
      | Some e \<Rightarrow> day e = d \<and> marketplace e = m \<and>
                  (saving_status e = NOT_SAVED \<or> processing_status e = ''_DONE_''))"

definition saving_of :: "store \<Rightarrow> string \<Rightarrow> string \<Rightarrow> AmazonOrderSavingStatus option" where
  "saving_of st d m = map_option saving_status (logger st (d, m))"

definition zero_records :: "mws_env \<Rightarrow> string option \<Rightarrow> bool" where
  "zero_records env rid =
     (case mws_get_report env rid of
        Inl e \<Rightarrow> False
      | Inr None \<Rightarrow> True
      | Inr (Some orders) \<Rightarrow> build_df orders = Inr None)"

text \<open>
  The fetch of the report \<open>rid\<close> fails with \<open>x\<close>: \<open>GetReport\<close> raises it, or the
  building of the data frame raises it, or \<open>save_orders\<close> raises it on the data frame.
\<close>

definition fetch_raises :: "mws_env \<Rightarrow> string option \<Rightarrow> py_exn \<Rightarrow> bool" where
  "fetch_raises env rid x =
     (case mws_get_report env rid of
        Inl e \<Rightarrow> e = x
      | Inr None \<Rightarrow> False
      | Inr (Some orders) \<Rightarrow>
          (case build_df orders of
             Inl e \<Rightarrow> e = x
           | Inr None \<Rightarrow> False
           | Inr (Some df) \<Rightarrow> save_orders_raises env df = Some x))"


section \<open>The retrieval objects that can exist\<close>

text \<open>An object is built by \<open>__init__\<close> and changed by its public methods only.\<close>

inductive reachable :: "SpTabReportRetrieval \<Rightarrow> bool" where
  constructed: "init trk credentials report_type_name = Inr self \<Longrightarrow> reachable self"
| after_bulk_mode: "reachable self \<Longrightarrow> reachable (bulk_mode self)"
| after_custom_mode: "reachable self \<Longrightarrow> reachable (custom_mode self)"
| after_retrieve_report:
    "reachable self \<Longrightarrow>
     reachable (r_self (retrieve_report self env mkt start_ds end_ds credentials report_type_name))"

code_pred reachable .

definition sp_self_fresh :: SpTabReportRetrieval where
  "sp_self_fresh =
     \<lparr>creds = Some ''credentials'', rep = None, tracker = Map.empty,
      type_name = Some ''Inventory Report'', bulk = False, report_create_left = 0,
      get_report_left = 0, get_report_doc_left = 0, t_last_report_create = 0,
      t_last_get_report = 0, t_last_get_report_doc = 0\<rparr>"


section \<open>Concrete inputs\<close>

text \<open>A day, a marketplace table and what MWS can do during a call, used to evaluate
  \<open>retrieve_orders\<close>.\<close>

definition day0 :: string where "day0 = ''2021-02-08''"

definition next_day0 :: "string \<Rightarrow> string option" where
  "next_day0 d = (if d = ''2021-02-08'' then Some ''2021-02-09'' else None)"

definition retrieval0 :: AmazonOrderRetrieval where
  "retrieval0 = \<lparr>marketplaces = [''US'' \<mapsto> ''ATVPDKIKX0DER'']\<rparr>"

definition store0 :: store where
  "store0 = \<lparr>logger = Map.empty, sink = []\<rparr>"

definition throttled :: py_exn where
  "throttled = LibraryError ''mws.mws.MWSError'' ''Request is throttled''"

definition mws_done :: mws_env where
  "mws_done =
     \<lparr>now_pst = ''2021-02-09 01:00:00-08:00'',
      mws_request_report = (\<lambda>t d n i. Inr [''ReportRequestId'' \<mapsto> ''R1'']),
      mws_get_report_request_list =
        (\<lambda>r. Inr [''SubmittedDate'' \<mapsto> ''2021-02-09T09:00:00+00:00'',
                   ''ReportRequestId'' \<mapsto> ''R1'',
                   ''ReportProcessingStatus'' \<mapsto> ''_DONE_'',
                   ''GeneratedReportId'' \<mapsto> ''G1'']),
      mws_get_report =
        (\<lambda>r. Inr (Some [[\<lparr>ItemStatus = Some ''Shipped'', SKU = ''SKU-1'', item_raises = None\<rparr>]])),
      save_orders_raises = (\<lambda>df. None)\<rparr>"

definition mws_empty :: mws_env where
  "mws_empty = mws_done\<lparr>mws_get_report := (\<lambda>r. Inr None)\<rparr>"

definition mws_throttled :: mws_env where
  "mws_throttled =
     mws_done\<lparr>mws_request_report := (\<lambda>t d n i. Inl throttled),
               mws_get_report_request_list := (\<lambda>r. Inl throttled),
               mws_get_report := (\<lambda>r. Inl throttled)\<rparr>"

definition entry_done :: AmazonReportLogEntry where
  "entry_done =
     \<lparr>submitted_date = Some ''2021-02-09T09:00:00+00:00'', request_id = Some ''R1'',
      report_id = Some ''G1'', day = ''2021-02-08'', marketplace = ''US'',
      processing_status = ''_DONE_'', saving_status = NOT_SAVED, last_err_type = None\<rparr>"

definition store_done :: store where
  "store_done = \<lparr>logger = [(''2021-02-08'', ''US'') \<mapsto> entry_done], sink = []\<rparr>"

text \<open>An environment in which \<open>save_orders\<close> raises, and the entry of a created request.\<close>

definition disk_full :: py_exn where
  "disk_full = LibraryError ''OSError'' ''No space left on device''"

definition mws_disk_full :: mws_env where
  "mws_disk_full = mws_done\<lparr>save_orders_raises := (\<lambda>df. Some disk_full)\<rparr>"



section \<open>Orders on the saving status\<close>

text \<open>
  The saving states recorded for a day and marketplace after each call of a sequence
  (\<open>None\<close>: no entry yet).
\<close>

definition saving_states ::
  "(string \<Rightarrow> string option) \<Rightarrow> AmazonOrderRetrieval \<Rightarrow> mws_env list \<Rightarrow> store \<Rightarrow> string \<Rightarrow> string
   \<Rightarrow> AmazonOrderSavingStatus option list" where
  "saving_states nd self envs st d m =
     map (\<lambda>out. saving_of (o_store out) d m) (retrieve_orders_seq nd self envs st d m)"

text \<open>
  The order of the specification, NOT\_SAVED, then SAVE\_FAILED (which may go back to
  NOT\_SAVED by a retry), then EMPTY\_SAVE or SAVED: a step is allowed when it does not go
  down in that order, or goes from SAVE\_FAILED back to NOT\_SAVED.
\<close>

fun spec_saving_order :: "AmazonOrderSavingStatus option \<Rightarrow> nat" where
  "spec_saving_order None = 0"
| "spec_saving_order (Some NOT_SAVED) = 0"
| "spec_saving_order (Some SAVE_FAILED) = 1"
| "spec_saving_order (Some EMPTY_SAVE) = 2"
| "spec_saving_order (Some SAVED) = 2"

definition spec_progress ::
  "AmazonOrderSavingStatus option \<Rightarrow> AmazonOrderSavingStatus option \<Rightarrow> bool" where
  "spec_progress a b =
     (spec_saving_order a \<le> spec_saving_order b \<or> (a = Some SAVE_FAILED \<and> b = Some NOT_SAVED))"

text \<open>The order the code keeps: NOT\_SAVED, then SAVE\_FAILED or EMPTY\_SAVE, then SAVED.\<close>

fun saving_rank :: "AmazonOrderSavingStatus option \<Rightarrow> nat" where
  "saving_rank None = 0"
| "saving_rank (Some NOT_SAVED) = 0"
| "saving_rank (Some SAVE_FAILED) = 1"
| "saving_rank (Some EMPTY_SAVE) = 1"
| "saving_rank (Some SAVED) = 2"

section \<open>Concrete inputs for tab reports\<close>

text \<open>The requests to the SP-API among the events of a call (the sleeps left out).\<close>

definition remote_requests :: "sp_event list \<Rightarrow> sp_event list" where
  "remote_requests evs = filter (\<lambda>ev. case ev of Sleep t \<Rightarrow> False | _ \<Rightarrow> True) evs"

definition quota_exceeded :: py_exn where
  "quota_exceeded = SellingApiException ''SellingApiRequestThrottledException'' ''QuotaExceeded''"

definition connection_error :: py_exn where
  "connection_error = LibraryError ''ConnectionError'' ''Connection aborted''"

definition sp_done :: sp_env where
  "sp_done =
     \<lparr>time_at = (\<lambda>rt. 1000),
      sp_create_report = (\<lambda>t s e i. Inr \<lparr>payload = [''reportId'' \<mapsto> ''REP1''], errors = None\<rparr>),
      sp_get_report =
        (\<lambda>r. Inr \<lparr>payload = [''processingStatus'' \<mapsto> ''DONE'', ''reportDocumentId'' \<mapsto> ''DOC1''],
                   errors = None\<rparr>),
      sp_get_report_document = (\<lambda>i. Inr \<lparr>payload = [''document'' \<mapsto> ''sku''], errors = None\<rparr>),
      read_csv = (\<lambda>txt. Inr [txt]),
      isoformat_of = (\<lambda>ds. Some (ds @ ''T00:00:00'')),
      marketplace_id_of = (\<lambda>c. ''ATVPDKIKX0DER'')\<rparr>"

definition sp_throttled :: sp_env where
  "sp_throttled =
     sp_done\<lparr>sp_create_report := (\<lambda>t s e i. Inl quota_exceeded),
              sp_get_report := (\<lambda>r. Inl quota_exceeded),
              sp_get_report_document := (\<lambda>i. Inl quota_exceeded)\<rparr>"

definition sp_offline :: sp_env where
  "sp_offline =
     sp_done\<lparr>sp_create_report := (\<lambda>t s e i. Inl connection_error),
              sp_get_report := (\<lambda>r. Inl connection_error),
              sp_get_report_document := (\<lambda>i. Inl connection_error)\<rparr>"

definition key0 :: report_key where
  "key0 = (''Inventory Report'', ''US'', ''2021-02-08'', ''2021-02-09'')"

definition sp_self_queued :: SpTabReportRetrieval where
  "sp_self_queued =
     sp_self_fresh\<lparr>tracker :=
       [key0 \<mapsto> \<lparr>ReportId = Some ''REP1'', Errors = None, Status = Some ''IN_QUEUE'',
                   DocumentId = None\<rparr>]\<rparr>"

definition entry_submitted :: AmazonReportLogEntry where
  "entry_submitted =
     \<lparr>submitted_date = Some ''2021-02-09T09:00:00+00:00'', request_id = Some ''R1'',
      report_id = None, day = ''2021-02-08'', marketplace = ''US'',
      processing_status = ''_SUBMITTED_'', saving_status = NOT_SAVED, last_err_type = None\<rparr>"

definition store_submitted :: store where
  "store_submitted = \<lparr>logger = [(''2021-02-08'', ''US'') \<mapsto> entry_submitted], sink = []\<rparr>"

text \<open>The rate window of a new \<open>SP_Orders_Retrieval\<close> with the default settings.\<close>

definition orders_window_fresh :: RateWindow where
  "orders_window_fresh =
     \<lparr>burstCapacity = 15, remainingInBurst = 15, minSpacing = 2 / 10, lastRequestTime = None\<rparr>"

text \<open>The retrieval object after a first CREATE REPORT request in bulk mode at time 1000.\<close>

definition sp_self_after_create :: SpTabReportRetrieval where
  "sp_self_after_create = fst (wait (bulk_mode sp_self_fresh) CREATE_REPORT 1000)"

section \<open>Properties of retrieve\_orders\<close>

lemma update_status_frame:
  "update_status env le = (oc, le1) \<Longrightarrow>
     day le1 = day le \<and> marketplace le1 = marketplace le \<and> saving_status le1 = saving_status le
     \<and> request_id le1 = request_id le"
  by (auto simp: update_status_def Let_def split: sum.splits option.splits if_splits)

lemma update_status_done:
  "update_status env le = (PollDone, le1) \<Longrightarrow>
     processing_status le1 = ''_DONE_'' \<and> last_err_type le1 = last_err_type le"
  by (auto simp: update_status_def Let_def split: sum.splits option.splits if_splits)



lemma update_status_remote_raises:
  "mws_get_report_request_list env (request_id le) = Inl x \<Longrightarrow>
     update_status env le = (PollRaise x, le\<lparr>last_err_type := Some (str_type x)\<rparr>)"
  by (simp add: update_status_def)

lemma save_report_frame:
  "save_report env le snk = (r, le1, snk1) \<Longrightarrow>
     day le1 = day le \<and> marketplace le1 = marketplace le \<and> processing_status le1 = processing_status le
     \<and> report_id le1 = report_id le \<and> request_id le1 = request_id le \<and> saving_status le1 \<noteq> NOT_SAVED"
  by (auto simp: save_report_def save_failed_def split: sum.splits option.splits)

lemma save_report_raise:
  "save_report env le snk = (Inl x, le1, snk1) \<Longrightarrow>
     saving_status le1 = SAVE_FAILED \<and> last_err_type le1 = Some (str_type x) \<and> snk1 = snk"
  by (auto simp: save_report_def save_failed_def split: sum.splits option.splits)

lemma save_report_return:
  "save_report env le snk = (Inr s, le1, snk1) \<Longrightarrow>
     s = SAVED_ORDERS \<and> last_err_type le1 = last_err_type le \<and>
     (saving_status le1 = EMPTY_SAVE \<or> saving_status le1 = SAVED)"
  by (auto simp: save_report_def save_failed_def split: sum.splits option.splits)

lemma save_report_zero:
  "zero_records env (report_id le) \<Longrightarrow>
     save_report env le snk = (Inr SAVED_ORDERS, le\<lparr>saving_status := EMPTY_SAVE\<rparr>, snk)"
  by (auto simp: save_report_def zero_records_def split: sum.splits option.splits)

lemma created_entry_cases:
  "case created_entry ri d m of
     Inl x \<Rightarrow> True
   | Inr e \<Rightarrow> day e = d \<and> marketplace e = m \<and> saving_status e = NOT_SAVED \<and> last_err_type e = None"
  by (simp add: created_entry_def split: option.splits)

lemma created_entry_Inr:
  assumes "created_entry ri d m = Inr e"
  shows "day e = d \<and> marketplace e = m \<and> saving_status e = NOT_SAVED \<and> last_err_type e = None"
  using created_entry_cases [where ri = ri and d = d and m = m] assms by simp

lemma create_request_the:
  "o_entry (create_request env st d m nd mid) \<noteq> None \<Longrightarrow>
     day (the (o_entry (create_request env st d m nd mid))) = d \<and>
     marketplace (the (o_entry (create_request env st d m nd mid))) = m \<and>
     saving_status (the (o_entry (create_request env st d m nd mid))) = NOT_SAVED \<and>
     logger (o_store (create_request env st d m nd mid)) (d, m)
       = o_entry (create_request env st d m nd mid) \<and>
     sink (o_store (create_request env st d m nd mid)) = sink st \<and>
     (case o_result (create_request env st d m nd mid) of
        Inl x \<Rightarrow>
          last_err_type (the (o_entry (create_request env st d m nd mid))) = Some (str_type x) \<and>
          processing_status (the (o_entry (create_request env st d m nd mid))) = REQUEST_FAILED_name \<and>
          request_id (the (o_entry (create_request env st d m nd mid))) = None
      | Inr s \<Rightarrow>
          s = CREATED_REQUEST \<and>
          last_err_type (the (o_entry (create_request env st d m nd mid))) = None)"
  by (auto simp: create_request_def create_failed_def log_info_def Let_def
           split: sum.splits option.splits dest: created_entry_Inr)

lemma create_request_entry:
  assumes "o_entry (create_request env st d m nd mid) = Some e"
  shows "day e = d" and "marketplace e = m" and "saving_status e = NOT_SAVED"
    and "logger (o_store (create_request env st d m nd mid)) (d, m) = Some e"
    and "sink (o_store (create_request env st d m nd mid)) = sink st"
    and "o_result (create_request env st d m nd mid) = Inl x \<Longrightarrow>
           last_err_type e = Some (str_type x) \<and> processing_status e = REQUEST_FAILED_name
           \<and> request_id e = None"
    and "o_result (create_request env st d m nd mid) = Inr s \<Longrightarrow>
           s = CREATED_REQUEST \<and> last_err_type e = None"
  using create_request_the [of env st d m nd mid] assms by auto



lemma fetch_and_log_sel:
  "o_result (fetch_and_log env le st cs) = fst (save_report env le (sink st))"
  "o_entry (fetch_and_log env le st cs) = Some (fst (snd (save_report env le (sink st))))"
  "logger (o_store (fetch_and_log env le st cs))
     = log_info (logger st) (fst (snd (save_report env le (sink st))))"
  "sink (o_store (fetch_and_log env le st cs)) = snd (snd (save_report env le (sink st)))"
  "o_calls (fetch_and_log env le st cs) = cs @ [GetReport (report_id le)]"
  by (simp_all add: fetch_and_log_def split: prod.splits)

lemma save_report_frame':
  "day (fst (snd (save_report env le snk))) = day le"
  "marketplace (fst (snd (save_report env le snk))) = marketplace le"
  "processing_status (fst (snd (save_report env le snk))) = processing_status le"
  "report_id (fst (snd (save_report env le snk))) = report_id le"
  "request_id (fst (snd (save_report env le snk))) = request_id le"
  "saving_status (fst (snd (save_report env le snk))) \<noteq> NOT_SAVED"
  using save_report_frame [of env le snk "fst (save_report env le snk)"
          "fst (snd (save_report env le snk))" "snd (snd (save_report env le snk))"]
  by simp_all


lemma ro_bad_day:
  "nd d = None \<Longrightarrow> retrieve_orders nd self env st d m
     = \<lparr>o_result = Inl (strptime_error d), o_store = st, o_calls = [], o_entry = None\<rparr>"
  by (simp add: retrieve_orders_def)

lemma ro_bad_marketplace:
  "nd d = Some nxt \<Longrightarrow> marketplaces self m = None \<Longrightarrow> retrieve_orders nd self env st d m
     = \<lparr>o_result = Inl (KeyError m), o_store = st, o_calls = [], o_entry = None\<rparr>"
  by (simp add: retrieve_orders_def)

lemma ro_create_new:
  "nd d = Some nxt \<Longrightarrow> marketplaces self m = Some mid \<Longrightarrow> logger st (d, m) = None \<Longrightarrow>
     retrieve_orders nd self env st d m = create_request env st d m nxt mid"
  by (simp add: retrieve_orders_def get_info_def)

lemma ro_create_again:
  "nd d = Some nxt \<Longrightarrow> marketplaces self m = Some mid \<Longrightarrow> logger st (d, m) = Some e \<Longrightarrow>
   processing_status e = REQUEST_FAILED_name \<Longrightarrow>
     retrieve_orders nd self env st d m = create_request env st d m nxt mid"
  by (simp add: retrieve_orders_def get_info_def)

lemma ro_saved:
  "nd d = Some nxt \<Longrightarrow> marketplaces self m = Some mid \<Longrightarrow> logger st (d, m) = Some e \<Longrightarrow>
   processing_status e \<noteq> REQUEST_FAILED_name \<Longrightarrow> saving_status e = SAVED \<Longrightarrow>
     retrieve_orders nd self env st d m
       = \<lparr>o_result = Inr ORDERS_ALREADY_SAVED, o_store = st, o_calls = [], o_entry = None\<rparr>"
  by (simp add: retrieve_orders_def get_info_def)

lemma ro_fetch:
  "nd d = Some nxt \<Longrightarrow> marketplaces self m = Some mid \<Longrightarrow> logger st (d, m) = Some e \<Longrightarrow>
   processing_status e \<noteq> REQUEST_FAILED_name \<Longrightarrow> saving_status e \<noteq> SAVED \<Longrightarrow>
   processing_status e = ''_DONE_'' \<Longrightarrow>
     retrieve_orders nd self env st d m = fetch_and_log env (e\<lparr>last_err_type := None\<rparr>) st []"
  by (simp add: retrieve_orders_def get_info_def)

lemma ro_poll_return:
  "nd d = Some nxt \<Longrightarrow> marketplaces self m = Some mid \<Longrightarrow> logger st (d, m) = Some e \<Longrightarrow>
   processing_status e \<noteq> REQUEST_FAILED_name \<Longrightarrow> saving_status e \<noteq> SAVED \<Longrightarrow>
   processing_status e \<noteq> ''_DONE_'' \<Longrightarrow>
   update_status env (e\<lparr>last_err_type := None\<rparr>) = (PollReturn s, le1) \<Longrightarrow>
     retrieve_orders nd self env st d m
       = \<lparr>o_result = Inr s, o_store = st\<lparr>logger := log_info (logger st) le1\<rparr>,
          o_calls = [GetReportRequestList (request_id e)], o_entry = Some le1\<rparr>"
  by (simp add: retrieve_orders_def get_info_def)

lemma ro_poll_raise:
  "nd d = Some nxt \<Longrightarrow> marketplaces self m = Some mid \<Longrightarrow> logger st (d, m) = Some e \<Longrightarrow>
   processing_status e \<noteq> REQUEST_FAILED_name \<Longrightarrow> saving_status e \<noteq> SAVED \<Longrightarrow>
   processing_status e \<noteq> ''_DONE_'' \<Longrightarrow>
   update_status env (e\<lparr>last_err_type := None\<rparr>) = (PollRaise x, le1) \<Longrightarrow>
     retrieve_orders nd self env st d m
       = \<lparr>o_result = Inl x, o_store = st\<lparr>logger := log_info (logger st) le1\<rparr>,
          o_calls = [GetReportRequestList (request_id e)], o_entry = Some le1\<rparr>"
  by (simp add: retrieve_orders_def get_info_def)

lemma ro_poll_done:
  "nd d = Some nxt \<Longrightarrow> marketplaces self m = Some mid \<Longrightarrow> logger st (d, m) = Some e \<Longrightarrow>
   processing_status e \<noteq> REQUEST_FAILED_name \<Longrightarrow> saving_status e \<noteq> SAVED \<Longrightarrow>
   processing_status e \<noteq> ''_DONE_'' \<Longrightarrow>
   update_status env (e\<lparr>last_err_type := None\<rparr>) = (PollDone, le1) \<Longrightarrow>
     retrieve_orders nd self env st d m
       = fetch_and_log env le1 (st\<lparr>logger := log_info (logger st) le1\<rparr>)
           [GetReportRequestList (request_id e)]"
  by (simp add: retrieve_orders_def get_info_def)

lemma retrieve_orders_cases [case_names bad_day bad_marketplace create_new create_again saved
    fetch poll_return poll_raise poll_done]:
  obtains
    "nd d = None"
    "retrieve_orders nd self env st d m
       = \<lparr>o_result = Inl (strptime_error d), o_store = st, o_calls = [], o_entry = None\<rparr>"
  | nxt where "nd d = Some nxt" "marketplaces self m = None"
    "retrieve_orders nd self env st d m
       = \<lparr>o_result = Inl (KeyError m), o_store = st, o_calls = [], o_entry = None\<rparr>"
  | nxt mid where "nd d = Some nxt" "marketplaces self m = Some mid" "logger st (d, m) = None"
    "retrieve_orders nd self env st d m = create_request env st d m nxt mid"
  | nxt mid e where "nd d = Some nxt" "marketplaces self m = Some mid" "logger st (d, m) = Some e"
      "processing_status e = REQUEST_FAILED_name"
    "retrieve_orders nd self env st d m = create_request env st d m nxt mid"
  | nxt mid e where "nd d = Some nxt" "marketplaces self m = Some mid" "logger st (d, m) = Some e"
      "processing_status e \<noteq> REQUEST_FAILED_name" "saving_status e = SAVED"
    "retrieve_orders nd self env st d m
       = \<lparr>o_result = Inr ORDERS_ALREADY_SAVED, o_store = st, o_calls = [], o_entry = None\<rparr>"
  | nxt mid e where "nd d = Some nxt" "marketplaces self m = Some mid" "logger st (d, m) = Some e"
      "processing_status e \<noteq> REQUEST_FAILED_name" "saving_status e \<noteq> SAVED"
      "processing_status e = ''_DONE_''"
    "retrieve_orders nd self env st d m = fetch_and_log env (e\<lparr>last_err_type := None\<rparr>) st []"
  | nxt mid e s le1 where "nd d = Some nxt" "marketplaces self m = Some mid"
      "logger st (d, m) = Some e"
      "processing_status e \<noteq> REQUEST_FAILED_name" "saving_status e \<noteq> SAVED"
      "processing_status e \<noteq> ''_DONE_''"
      "update_status env (e\<lparr>last_err_type := None\<rparr>) = (PollReturn s, le1)"
    "retrieve_orders nd self env st d m
       = \<lparr>o_result = Inr s, o_store = st\<lparr>logger := log_info (logger st) le1\<rparr>,
          o_calls = [GetReportRequestList (request_id e)], o_entry = Some le1\<rparr>"
  | nxt mid e x le1 where "nd d = Some nxt" "marketplaces self m = Some mid"
      "logger st (d, m) = Some e"
      "processing_status e \<noteq> REQUEST_FAILED_name" "saving_status e \<noteq> SAVED"
      "processing_status e \<noteq> ''_DONE_''"
      "update_status env (e\<lparr>last_err_type := None\<rparr>) = (PollRaise x, le1)"
    "retrieve_orders nd self env st d m
       = \<lparr>o_result = Inl x, o_store = st\<lparr>logger := log_info (logger st) le1\<rparr>,
          o_calls = [GetReportRequestList (request_id e)], o_entry = Some le1\<rparr>"
  | nxt mid e le1 where "nd d = Some nxt" "marketplaces self m = Some mid"
      "logger st (d, m) = Some e"
      "processing_status e \<noteq> REQUEST_FAILED_name" "saving_status e \<noteq> SAVED"
      "processing_status e \<noteq> ''_DONE_''"
      "update_status env (e\<lparr>last_err_type := None\<rparr>) = (PollDone, le1)"
    "retrieve_orders nd self env st d m
       = fetch_and_log env le1 (st\<lparr>logger := log_info (logger st) le1\<rparr>)
           [GetReportRequestList (request_id e)]"
proof (cases "nd d")
  case None
  then show ?thesis using that(1) ro_bad_day by blast
next
  case (Some nxt)
  note nx = this
  show ?thesis
  proof (cases "marketplaces self m")
    case None
    then show ?thesis using that(2) nx ro_bad_marketplace by blast
  next
    case (Some mid)
    note mk = this
    show ?thesis
    proof (cases "logger st (d, m)")
      case None
      then show ?thesis using that(3) nx mk ro_create_new by blast
    next
      case (Some e)
      note le = this
      show ?thesis
      proof (cases "processing_status e = REQUEST_FAILED_name")
        case True
        then show ?thesis using that(4) nx mk le ro_create_again by blast
      next
        case False
        note nf = this
        show ?thesis
        proof (cases "saving_status e = SAVED")
          case True
          then show ?thesis using that(5) nx mk le nf ro_saved by blast
        next
          case False
          note ns = this
          show ?thesis
          proof (cases "processing_status e = ''_DONE_''")
            case True
            then show ?thesis using that(6) [OF nx mk le nf ns] ro_fetch [where nd = nd, OF nx mk le nf ns]
              by blast
          next
            case False
            note nd' = this
            obtain oc le1 where us: "update_status env (e\<lparr>last_err_type := None\<rparr>) = (oc, le1)"
              by (cases "update_status env (e\<lparr>last_err_type := None\<rparr>)") auto
            show ?thesis
            proof (cases oc)
              case (PollReturn s)
              then show ?thesis
                using that(7) [OF nx mk le nf ns nd'] ro_poll_return [where nd = nd, OF nx mk le nf ns nd'] us
                by blast
            next
              case (PollRaise x)
              then show ?thesis
                using that(8) [OF nx mk le nf ns nd'] ro_poll_raise [where nd = nd, OF nx mk le nf ns nd'] us
                by blast
            next
              case PollDone
              then show ?thesis
                using that(9) [OF nx mk le nf ns nd'] ro_poll_done [where nd = nd, OF nx mk le nf ns nd'] us
                by blast
            qed
          qed
        qed
      qed
    qed
  qed
qed

lemma save_report_raise':
  "fst (save_report env le snk) = Inl x \<Longrightarrow>
     saving_status (fst (snd (save_report env le snk))) = SAVE_FAILED \<and>
     last_err_type (fst (snd (save_report env le snk))) = Some (str_type x) \<and>
     snd (snd (save_report env le snk)) = snk"
  using save_report_raise [of env le snk x "fst (snd (save_report env le snk))"
          "snd (snd (save_report env le snk))"]
  by (metis prod.collapse)

lemma save_report_return':
  "fst (save_report env le snk) = Inr s \<Longrightarrow>
     s = SAVED_ORDERS \<and>
     last_err_type (fst (snd (save_report env le snk))) = last_err_type le \<and>
     (saving_status (fst (snd (save_report env le snk))) = EMPTY_SAVE \<or>
      saving_status (fst (snd (save_report env le snk))) = SAVED)"
  using save_report_return [of env le snk s "fst (snd (save_report env le snk))"
          "snd (snd (save_report env le snk))"]
  by (metis prod.collapse)

lemma create_request_no_fetch: "GetReport rid \<notin> set (o_calls (create_request env st d m nd mid))"
  by (auto simp: create_request_def create_failed_def Let_def split: sum.splits option.splits)

lemma fetch_reachedE:
  assumes "GetReport rid \<in> set (o_calls (retrieve_orders nd self env st d m))"
    and "keyed (logger st) d m"
  obtains le st' cs nxt mid where
    "nd d = Some nxt" "marketplaces self m = Some mid"
    "retrieve_orders nd self env st d m = fetch_and_log env le st' cs"
    "processing_status le = ''_DONE_''" "day le = d" "marketplace le = m"
    "report_id le = rid" "sink st' = sink st" "last_err_type le = None"
proof (cases rule: retrieve_orders_cases [where nd = nd and d = d and self = self and m = m and st = st and env = env])
  case bad_day
  then show ?thesis using assms by simp
next
  case (bad_marketplace nxt)
  then show ?thesis using assms by simp
next
  case (create_new nxt mid)
  then show ?thesis using assms create_request_no_fetch by simp
next
  case (create_again nxt mid e')
  then show ?thesis using assms create_request_no_fetch by simp
next
  case (saved nxt mid e')
  then show ?thesis using assms by simp
next
  case (fetch nxt mid e')
  then show ?thesis using assms that [of nxt mid "e'\<lparr>last_err_type := None\<rparr>" st "[]"]
    by (auto simp: fetch_and_log_sel keyed_def)
next
  case (poll_return nxt mid e' s le1)
  then show ?thesis using assms by simp
next
  case (poll_raise nxt mid e' x le1)
  then show ?thesis using assms by simp
next
  case (poll_done nxt mid e' le1)
  then show ?thesis
    using assms that [of nxt mid le1 "st\<lparr>logger := log_info (logger st) le1\<rparr>"
        "[GetReportRequestList (request_id e')]"]
      update_status_frame [of env "e'\<lparr>last_err_type := None\<rparr>" PollDone le1]
      update_status_done [of env "e'\<lparr>last_err_type := None\<rparr>" le1]
    by (auto simp: fetch_and_log_sel keyed_def)
qed

lemma refetch:
  assumes "nd d = Some nxt" "marketplaces self m = Some mid" "logger st (d, m) = Some e"
    and "processing_status e = ''_DONE_''" "saving_status e \<noteq> SAVED"
  shows "o_calls (retrieve_orders nd self env st d m) = [GetReport (report_id e)]"
  using ro_fetch [where nd = nd, OF assms(1,2,3) _ assms(5,4)] assms(4)
  by (simp add: REQUEST_FAILED_name_def fetch_and_log_sel)

lemma keyed_log_info:
  "day e = d \<Longrightarrow> marketplace e = m \<Longrightarrow> log_info lg e (d, m) = Some e"
  by (simp add: log_info_def)

lemmas retrieve_orders_eval =
  retrieve_orders_def get_info_def log_info_def fetch_and_log_def save_report_def
  save_failed_def save_orders_def build_df_def update_dataset_def create_request_def
  created_entry_def create_failed_def update_status_def REQUEST_FAILED_name_def
  REPORT_TYPE_def next_day0_def retrieval0_def store0_def store_done_def entry_done_def
  mws_done_def mws_empty_def mws_throttled_def throttled_def keyed_def saving_of_def
  zero_records_def

lemma eval_done_throttled:
  "o_result (retrieve_orders next_day0 retrieval0 mws_throttled store_done ''2021-02-08'' ''US'')
     = Inl throttled"
  "o_calls (retrieve_orders next_day0 retrieval0 mws_throttled store_done ''2021-02-08'' ''US'')
     = [GetReport (Some ''G1'')]"
  "saving_of (o_store (retrieve_orders next_day0 retrieval0 mws_throttled store_done
      ''2021-02-08'' ''US'')) ''2021-02-08'' ''US'' = Some SAVE_FAILED"
  by (simp_all add: retrieve_orders_eval)

lemma eval_done_empty:
  "o_result (retrieve_orders next_day0 retrieval0 mws_empty store_done ''2021-02-08'' ''US'')
     = Inr SAVED_ORDERS"
  "o_calls (retrieve_orders next_day0 retrieval0 mws_empty store_done ''2021-02-08'' ''US'')
     = [GetReport (Some ''G1'')]"
  "saving_of (o_store (retrieve_orders next_day0 retrieval0 mws_empty store_done
      ''2021-02-08'' ''US'')) ''2021-02-08'' ''US'' = Some EMPTY_SAVE"
  by (simp_all add: retrieve_orders_eval)

lemma eval_done_done:
  "o_result (retrieve_orders next_day0 retrieval0 mws_done store_done ''2021-02-08'' ''US'')
     = Inr SAVED_ORDERS"
  "o_calls (retrieve_orders next_day0 retrieval0 mws_done store_done ''2021-02-08'' ''US'')
     = [GetReport (Some ''G1'')]"
  "saving_of (o_store (retrieve_orders next_day0 retrieval0 mws_done store_done
      ''2021-02-08'' ''US'')) ''2021-02-08'' ''US'' = Some SAVED"
  "sink (o_store (retrieve_orders next_day0 retrieval0 mws_done store_done
      ''2021-02-08'' ''US'')) = [[''SKU-1'']]"
  by (simp_all add: retrieve_orders_eval)

lemma eval_zero_records:
  "zero_records mws_empty (Some ''G1'')" "\<not> zero_records mws_done (Some ''G1'')"
  "keyed (logger store_done) ''2021-02-08'' ''US''"
  by (simp_all add: retrieve_orders_eval)

lemma fetch_raises_save_report:
  "fetch_raises env (report_id le) x \<longleftrightarrow> fst (save_report env le snk) = Inl x"
  by (auto simp: fetch_raises_def save_report_def save_failed_def save_orders_def
        split: sum.splits option.splits)

lemma eval_disk_full:
  "fetch_raises mws_disk_full (Some ''G1'') disk_full"
  "fetch_raises mws_throttled (Some ''G1'') throttled"
  "GetReport (Some ''G1'')
      \<in> set (o_calls (retrieve_orders next_day0 retrieval0 mws_disk_full store_done
                 ''2021-02-08'' ''US''))"
  "GetReport (Some ''G1'')
      \<in> set (o_calls (retrieve_orders next_day0 retrieval0 mws_throttled store_done
                 ''2021-02-08'' ''US''))"
  "save_orders_raises mws_disk_full [''SKU-1''] = Some disk_full"
  "mws_get_report mws_disk_full (Some ''G1'')
     = Inr (Some [[\<lparr>ItemStatus = Some ''Shipped'', SKU = ''SKU-1'', item_raises = None\<rparr>]])"
  "build_df [[\<lparr>ItemStatus = Some ''Shipped'', SKU = ''SKU-1'', item_raises = None\<rparr>]]
     = Inr (Some [''SKU-1''])"
  by (simp_all add: retrieve_orders_eval fetch_raises_def mws_disk_full_def disk_full_def)

text \<open>
  Claim C5.  When the fetch is reached (the call issues \<open>GetReport\<close>) and the fetch
  fails, because \<open>GetReport\<close> raises, the building of the data frame raises, or
  \<open>save_orders\<close> raises, then the call raises that exception; the entry of the day and
  marketplace afterwards has the processing status \<open>_DONE_\<close>, the saving status
  \<open>SAVE_FAILED\<close> and the type of the exception; the sink is as it was before the call;
  and the next call, whatever MWS does then, issues \<open>GetReport\<close> for the same report and
  nothing else: no request is created again.
\<close>

theorem fetch_failure_keeps_done:
  assumes "keyed (logger st) d m"
    and "GetReport rid \<in> set (o_calls (retrieve_orders nd self env st d m))"
    and "fetch_raises env rid x"
  shows "o_result (retrieve_orders nd self env st d m) = Inl x
     \<and> (\<exists>e. logger (o_store (retrieve_orders nd self env st d m)) (d, m) = Some e
            \<and> processing_status e = ''_DONE_'' \<and> saving_status e = SAVE_FAILED
            \<and> last_err_type e = Some (str_type x) \<and> report_id e = rid)
     \<and> sink (o_store (retrieve_orders nd self env st d m)) = sink st
     \<and> (\<forall>env'. o_calls (retrieve_orders nd self env'
                   (o_store (retrieve_orders nd self env st d m)) d m) = [GetReport rid])"
proof -
  from assms(2,1) obtain le st' cs nxt mid where
    pre: "nd d = Some nxt" "marketplaces self m = Some mid"
    and eq: "retrieve_orders nd self env st d m = fetch_and_log env le st' cs"
    and le: "processing_status le = ''_DONE_''" "day le = d" "marketplace le = m"
      "report_id le = rid" "sink st' = sink st" "last_err_type le = None"
    by (rule fetch_reachedE)
  let ?le' = "fst (snd (save_report env le (sink st')))"
  have r: "fst (save_report env le (sink st')) = Inl x"
    using assms(3) le(4) fetch_raises_save_report [of env le x "sink st'"] by simp
  have 0: "o_result (retrieve_orders nd self env st d m) = Inl x"
    using r eq by (simp add: fetch_and_log_sel)
  note f = save_report_raise' [OF r] save_report_frame' [of env le "sink st'"]
  have lg: "logger (o_store (retrieve_orders nd self env st d m)) (d, m) = Some ?le'"
    using eq le f by (simp add: fetch_and_log_sel keyed_log_info)
  have 1: "\<exists>e. logger (o_store (retrieve_orders nd self env st d m)) (d, m) = Some e
            \<and> processing_status e = ''_DONE_'' \<and> saving_status e = SAVE_FAILED
            \<and> last_err_type e = Some (str_type x) \<and> report_id e = rid"
    using lg le f by simp
  have 2: "sink (o_store (retrieve_orders nd self env st d m)) = sink st"
    using eq le f by (simp add: fetch_and_log_sel)
  have 3: "o_calls (retrieve_orders nd self env' (o_store (retrieve_orders nd self env st d m)) d m)
           = [GetReport rid]" for env'
    using refetch [where nd = nd, OF pre lg, of env'] le f by simp
  from 0 1 2 3 show ?thesis by blast
qed

theorem fetch_failure_keeps_done_witness:
  "keyed (logger store_done) ''2021-02-08'' ''US''
   \<and> fetch_raises mws_disk_full (Some ''G1'') disk_full
   \<and> save_orders_raises mws_disk_full [''SKU-1''] = Some disk_full
   \<and> o_result (retrieve_orders next_day0 retrieval0 mws_disk_full store_done ''2021-02-08'' ''US'')
       = Inl disk_full
   \<and> sink (o_store (retrieve_orders next_day0 retrieval0 mws_disk_full store_done
        ''2021-02-08'' ''US'')) = sink store_done
   \<and> o_calls (retrieve_orders next_day0 retrieval0 mws_done
        (o_store (retrieve_orders next_day0 retrieval0 mws_disk_full store_done
           ''2021-02-08'' ''US'')) ''2021-02-08'' ''US'') = [GetReport (Some ''G1'')]
   \<and> fetch_raises mws_throttled (Some ''G1'') throttled
   \<and> o_result (retrieve_orders next_day0 retrieval0 mws_throttled store_done ''2021-02-08'' ''US'')
       = Inl throttled
   \<and> sink (o_store (retrieve_orders next_day0 retrieval0 mws_throttled store_done
        ''2021-02-08'' ''US'')) = sink store_done"
proof -
  note a = fetch_failure_keeps_done [OF eval_zero_records(3) eval_disk_full(3) eval_disk_full(1)]
  note b = fetch_failure_keeps_done [OF eval_zero_records(3) eval_disk_full(4) eval_disk_full(2)]
  show ?thesis
    using a b eval_zero_records(3) eval_disk_full(1,2,5) by blast
qed

text \<open>
  Claim C3, as the code has it.  When the fetch is reached and the fetched report yields
  no record, \<open>retrieve_orders\<close> returns \<open>SAVED_ORDERS\<close>, the status it returns after every
  fetch that does not raise; the entry afterwards has the saving status \<open>EMPTY_SAVE\<close>
  (and the processing status \<open>_DONE_\<close>), the sink is unchanged, and the next call issues
  \<open>GetReport\<close> for the same report and nothing else.
\<close>

theorem empty_fetch_is_recorded:
  assumes "keyed (logger st) d m"
    and "GetReport rid \<in> set (o_calls (retrieve_orders nd self env st d m))"
  shows "(\<forall>s. o_result (retrieve_orders nd self env st d m) = Inr s \<longrightarrow> s = SAVED_ORDERS)
     \<and> (zero_records env rid \<longrightarrow>
          o_result (retrieve_orders nd self env st d m) = Inr SAVED_ORDERS
        \<and> (\<exists>e. logger (o_store (retrieve_orders nd self env st d m)) (d, m) = Some e
            \<and> processing_status e = ''_DONE_'' \<and> saving_status e = EMPTY_SAVE
            \<and> report_id e = rid)
        \<and> sink (o_store (retrieve_orders nd self env st d m)) = sink st
        \<and> (\<forall>env'. o_calls (retrieve_orders nd self env'
                   (o_store (retrieve_orders nd self env st d m)) d m) = [GetReport rid]))"
proof -
  from assms(2,1) obtain le st' cs nxt mid where
    pre: "nd d = Some nxt" "marketplaces self m = Some mid"
    and eq: "retrieve_orders nd self env st d m = fetch_and_log env le st' cs"
    and le: "processing_status le = ''_DONE_''" "day le = d" "marketplace le = m"
      "report_id le = rid" "sink st' = sink st" "last_err_type le = None"
    by (rule fetch_reachedE)
  have a: "\<forall>s. o_result (retrieve_orders nd self env st d m) = Inr s \<longrightarrow> s = SAVED_ORDERS"
    using eq save_report_return' [of env le "sink st'"] by (simp add: fetch_and_log_sel)
  have b: "o_result (retrieve_orders nd self env st d m) = Inr SAVED_ORDERS
        \<and> (\<exists>e. logger (o_store (retrieve_orders nd self env st d m)) (d, m) = Some e
            \<and> processing_status e = ''_DONE_'' \<and> saving_status e = EMPTY_SAVE
            \<and> report_id e = rid)
        \<and> sink (o_store (retrieve_orders nd self env st d m)) = sink st
        \<and> (\<forall>env'. o_calls (retrieve_orders nd self env'
                   (o_store (retrieve_orders nd self env st d m)) d m) = [GetReport rid])"
    if z: "zero_records env rid"
  proof -
    have sr: "save_report env le (sink st')
                = (Inr SAVED_ORDERS, le\<lparr>saving_status := EMPTY_SAVE\<rparr>, sink st')"
      using z le save_report_zero [of env le "sink st'"] by simp
    have lg: "logger (o_store (retrieve_orders nd self env st d m)) (d, m)
                = Some (le\<lparr>saving_status := EMPTY_SAVE\<rparr>)"
      using eq le sr by (simp add: fetch_and_log_sel keyed_log_info)
    have nx: "o_calls (retrieve_orders nd self env'
                   (o_store (retrieve_orders nd self env st d m)) d m) = [GetReport rid]" for env'
      using refetch [where nd = nd, OF pre lg, of env'] le by simp
    show ?thesis using eq le sr lg nx by (simp add: fetch_and_log_sel)
  qed
  from a b show ?thesis by blast
qed

theorem empty_fetch_is_recorded_witness:
  "keyed (logger store_done) ''2021-02-08'' ''US''
   \<and> zero_records mws_empty (Some ''G1'')
   \<and> o_result (retrieve_orders next_day0 retrieval0 mws_empty store_done ''2021-02-08'' ''US'')
       = Inr SAVED_ORDERS
   \<and> o_calls (retrieve_orders next_day0 retrieval0 mws_done
        (o_store (retrieve_orders next_day0 retrieval0 mws_empty store_done
           ''2021-02-08'' ''US'')) ''2021-02-08'' ''US'') = [GetReport (Some ''G1'')]"
proof -
  have h2: "GetReport (Some ''G1'')
      \<in> set (o_calls (retrieve_orders next_day0 retrieval0 mws_empty store_done
                 ''2021-02-08'' ''US''))"
    by (simp add: eval_done_empty)
  show ?thesis
    using empty_fetch_is_recorded [OF eval_zero_records(3) h2] eval_zero_records
    by blast
qed

text \<open>
  The claim C3 as it is stated fails: for the same tracked report, a fetch that yields no
  record and a fetch that saves one row return the same status.
\<close>

theorem empty_fetch_status_counterexample:
  "zero_records mws_empty (Some ''G1'') \<and> \<not> zero_records mws_done (Some ''G1'')
   \<and> sink (o_store (retrieve_orders next_day0 retrieval0 mws_done store_done
        ''2021-02-08'' ''US'')) = [[''SKU-1'']]
   \<and> o_result (retrieve_orders next_day0 retrieval0 mws_empty store_done ''2021-02-08'' ''US'')
       = o_result (retrieve_orders next_day0 retrieval0 mws_done store_done ''2021-02-08'' ''US'')"
  by (simp add: eval_zero_records eval_done_empty eval_done_done)

lemma create_request_no_entry:
  "o_entry (create_request env st d m nd mid) = None \<Longrightarrow>
     o_store (create_request env st d m nd mid) = st"
  by (auto simp: create_request_def create_failed_def Let_def
           split: sum.splits option.splits)

lemma create_request_tracked_ok:
  "tracked_ok (logger st) d m \<Longrightarrow>
     tracked_ok (logger (o_store (create_request env st d m nd mid))) d m"
proof (cases "o_entry (create_request env st d m nd mid)")
  case None
  then show "tracked_ok (logger st) d m \<Longrightarrow> ?thesis"
    using create_request_no_entry [of env st d m nd mid] by simp
next
  case (Some e)
  then show ?thesis
    using create_request_entry(1-4) [of env st d m nd mid e] by (simp add: tracked_ok_def)
qed

lemma tracked_ok_keyed: "tracked_ok lg d m \<Longrightarrow> keyed lg d m"
  by (auto simp: tracked_ok_def keyed_def split: option.splits)

lemma tracked_ok_log_info:
  "day e = d \<Longrightarrow> marketplace e = m \<Longrightarrow>
   saving_status e = NOT_SAVED \<or> processing_status e = ''_DONE_'' \<Longrightarrow>
     tracked_ok (log_info lg e) d m"
  by (simp add: tracked_ok_def log_info_def)

lemma saving_of_log_info:
  "day e = d \<Longrightarrow> marketplace e = m \<Longrightarrow>
     saving_of (st\<lparr>logger := log_info lg e\<rparr>) d m = Some (saving_status e)"
  by (simp add: saving_of_def log_info_def)

lemma tracked_okD:
  "tracked_ok lg d m \<Longrightarrow> lg (d, m) = Some e \<Longrightarrow>
     day e = d \<and> marketplace e = m \<and>
     (saving_status e = NOT_SAVED \<or> processing_status e = ''_DONE_'')"
  by (simp add: tracked_ok_def)

lemma retrieve_orders_tracked_ok:
  assumes "tracked_ok (logger st) d m"
  shows "tracked_ok (logger (o_store (retrieve_orders nd self env st d m))) d m"
proof (cases rule: retrieve_orders_cases [where nd = nd and d = d and self = self and m = m and st = st and env = env])
  case bad_day
  then show ?thesis using assms by simp
next
  case (bad_marketplace nxt)
  then show ?thesis using assms by simp
next
  case (create_new nxt mid)
  then show ?thesis using assms create_request_tracked_ok by simp
next
  case (create_again nxt mid e')
  then show ?thesis using assms create_request_tracked_ok by simp
next
  case (saved nxt mid e')
  then show ?thesis using assms by simp
next
  case (fetch nxt mid e')
  then show ?thesis
    using tracked_okD [OF assms fetch(3)]
      save_report_frame' [of env "e'\<lparr>last_err_type := None\<rparr>" "sink st"]
    by (simp add: fetch_and_log_sel tracked_ok_log_info)
next
  case (poll_return nxt mid e' s le1)
  then show ?thesis
    using tracked_okD [OF assms poll_return(3)]
      update_status_frame [of env "e'\<lparr>last_err_type := None\<rparr>" "PollReturn s" le1]
    by (simp add: tracked_ok_log_info)
next
  case (poll_raise nxt mid e' x le1)
  then show ?thesis
    using tracked_okD [OF assms poll_raise(3)]
      update_status_frame [of env "e'\<lparr>last_err_type := None\<rparr>" "PollRaise x" le1]
    by (simp add: tracked_ok_log_info)
next
  case (poll_done nxt mid e' le1)
  then show ?thesis
    using tracked_okD [OF assms poll_done(3)]
      update_status_frame [of env "e'\<lparr>last_err_type := None\<rparr>" PollDone le1]
      update_status_done [of env "e'\<lparr>last_err_type := None\<rparr>" le1]
      save_report_frame' [of env le1 "sink st"]
    by (simp add: fetch_and_log_sel tracked_ok_log_info)
qed

lemma saving_rank_fetch:
  "s \<noteq> NOT_SAVED \<Longrightarrow> s' \<noteq> SAVED \<Longrightarrow> saving_rank (Some s') \<le> saving_rank (Some s)"
  by (cases s; cases s') simp_all

lemma retrieve_orders_rank:
  assumes "tracked_ok (logger st) d m"
  shows "saving_rank (saving_of st d m)
           \<le> saving_rank (saving_of (o_store (retrieve_orders nd self env st d m)) d m)"
proof (cases rule: retrieve_orders_cases [where nd = nd and d = d and self = self and m = m and st = st and env = env])
  case bad_day
  then show ?thesis by simp
next
  case (bad_marketplace nxt)
  then show ?thesis by simp
next
  case (create_new nxt mid)
  then show ?thesis by (simp add: saving_of_def)
next
  case (create_again nxt mid e')
  then show ?thesis
    using tracked_okD [OF assms create_again(3)]
    by (simp add: saving_of_def REQUEST_FAILED_name_def)
next
  case (saved nxt mid e')
  then show ?thesis by simp
next
  case (fetch nxt mid e')
  then show ?thesis
    using tracked_okD [OF assms fetch(3)]
      save_report_frame' [of env "e'\<lparr>last_err_type := None\<rparr>" "sink st"]
    by (simp add: fetch_and_log_sel saving_of_def log_info_def saving_rank_fetch)
next
  case (poll_return nxt mid e' s le1)
  then show ?thesis using tracked_okD [OF assms poll_return(3)] by (simp add: saving_of_def)
next
  case (poll_raise nxt mid e' x le1)
  then show ?thesis using tracked_okD [OF assms poll_raise(3)] by (simp add: saving_of_def)
next
  case (poll_done nxt mid e' le1)
  then show ?thesis using tracked_okD [OF assms poll_done(3)] by (simp add: saving_of_def)
qed

lemma retrieve_orders_saved:
  assumes "tracked_ok (logger st) d m" and "saving_of st d m = Some SAVED"
  shows "o_store (retrieve_orders nd self env st d m) = st"
    and "o_calls (retrieve_orders nd self env st d m) = []"
    and "nd d \<noteq> None \<Longrightarrow> marketplaces self m \<noteq> None \<Longrightarrow>
           o_result (retrieve_orders nd self env st d m) = Inr ORDERS_ALREADY_SAVED"
proof -
  from assms obtain e where e: "logger st (d, m) = Some e" "saving_status e = SAVED"
    "processing_status e \<noteq> REQUEST_FAILED_name"
    by (auto simp: saving_of_def tracked_ok_def REQUEST_FAILED_name_def)
  have "o_store (retrieve_orders nd self env st d m) = st
      \<and> o_calls (retrieve_orders nd self env st d m) = []
      \<and> (nd d \<noteq> None \<longrightarrow> marketplaces self m \<noteq> None \<longrightarrow>
           o_result (retrieve_orders nd self env st d m) = Inr ORDERS_ALREADY_SAVED)"
  proof (cases "nd d")
    case None
    then show ?thesis by (simp add: ro_bad_day)
  next
    case (Some nxt)
    note nx = this
    show ?thesis
    proof (cases "marketplaces self m")
      case None
      then show ?thesis using nx by (simp add: ro_bad_marketplace [where nd = nd])
    next
      case (Some mid)
      then show ?thesis using nx e ro_saved [where nd = nd, OF nx Some e(1,3,2)] by simp
    qed
  qed
  then show "o_store (retrieve_orders nd self env st d m) = st"
    and "o_calls (retrieve_orders nd self env st d m) = []"
    and "nd d \<noteq> None \<Longrightarrow> marketplaces self m \<noteq> None \<Longrightarrow>
           o_result (retrieve_orders nd self env st d m) = Inr ORDERS_ALREADY_SAVED"
    by simp_all
qed


lemma retrieve_orders_seq_saved:
  assumes "tracked_ok (logger st) d m" and "saving_of st d m = Some SAVED"
  shows "\<forall>out \<in> set (retrieve_orders_seq nd self envs st d m).
           o_store out = st \<and> o_calls out = [] \<and>
           (nd d \<noteq> None \<longrightarrow> marketplaces self m \<noteq> None \<longrightarrow>
              o_result out = Inr ORDERS_ALREADY_SAVED)"
proof (induction envs)
  case Nil
  then show ?case by simp
next
  case (Cons env envs)
  then show ?case using retrieve_orders_saved [OF assms, of nd self env] by (simp add: Let_def)
qed

lemma retrieve_orders_seq_length [simp]:
  "length (retrieve_orders_seq nd self envs st d m) = length envs"
  by (induction envs arbitrary: st) (simp_all add: Let_def)

lemma retrieve_orders_seq_tracked_ok:
  "tracked_ok (logger st) d m \<Longrightarrow>
     \<forall>out \<in> set (retrieve_orders_seq nd self envs st d m). tracked_ok (logger (o_store out)) d m"
proof (induction envs arbitrary: st)
  case Nil
  then show ?case by simp
next
  case (Cons env envs)
  then show ?case using retrieve_orders_tracked_ok [of st d m nd self env] by (simp add: Let_def)
qed

lemma retrieve_orders_seq_drop:
  "i < length envs \<Longrightarrow>
     drop (Suc i) (retrieve_orders_seq nd self envs st d m)
       = retrieve_orders_seq nd self (drop (Suc i) envs)
           (o_store (retrieve_orders_seq nd self envs st d m ! i)) d m"
proof (induction envs arbitrary: st i)
  case Nil
  then show ?case by simp
next
  case (Cons env envs)
  then show ?case by (cases i) (simp_all add: Let_def)
qed

lemma saving_states_sorted:
  "tracked_ok (logger st) d m \<Longrightarrow>
     sorted (map saving_rank (saving_of st d m # saving_states nd self envs st d m))"
proof (induction envs arbitrary: st)
  case Nil
  then show ?case by (simp add: saving_states_def)
next
  case (Cons env envs)
  have "sorted (map saving_rank
          (saving_of (o_store (retrieve_orders nd self env st d m)) d m
           # saving_states nd self envs (o_store (retrieve_orders nd self env st d m)) d m))"
    using Cons.IH [OF retrieve_orders_tracked_ok [OF Cons.prems]] .
  moreover have "saving_rank (saving_of st d m)
      \<le> saving_rank (saving_of (o_store (retrieve_orders nd self env st d m)) d m)"
    using retrieve_orders_rank [OF Cons.prems] .
  ultimately show ?case
    by (auto simp: saving_states_def Let_def)
qed

lemma eval_three_calls:
  "saving_states next_day0 retrieval0 [mws_done, mws_empty, mws_throttled] store0
      ''2021-02-08'' ''US'' = [Some NOT_SAVED, Some EMPTY_SAVE, Some SAVE_FAILED]"
  by (simp add: saving_states_def Let_def retrieve_orders_eval)

lemma eval_five_calls:
  "saving_states next_day0 retrieval0
      [mws_done, mws_empty, mws_throttled, mws_done, mws_throttled] store0
      ''2021-02-08'' ''US''
     = [Some NOT_SAVED, Some EMPTY_SAVE, Some SAVE_FAILED, Some SAVED, Some SAVED]"
  by (simp add: saving_states_def Let_def retrieve_orders_eval)

lemma eval_store0: "tracked_ok (logger store0) ''2021-02-08'' ''US''"
  by (simp add: tracked_ok_def store0_def)

text \<open>
  Claim C9, as the code has it.  From a tracked state that the code can have written, the
  saving states recorded after the calls of any sequence never go down in the order
  NOT\_SAVED, then SAVE\_FAILED or EMPTY\_SAVE, then SAVED; and from a call on after which
  SAVED is recorded, every later call leaves SAVED recorded and issues no remote call.
\<close>

theorem saving_status_progress:
  assumes "tracked_ok (logger st) d m"
  shows "sorted (map saving_rank (saving_of st d m # saving_states nd self envs st d m))
     \<and> (\<forall>i j. i < j \<and> j < length envs
           \<and> saving_states nd self envs st d m ! i = Some SAVED
          \<longrightarrow> saving_states nd self envs st d m ! j = Some SAVED
              \<and> o_calls (retrieve_orders_seq nd self envs st d m ! j) = [])"
proof (intro conjI allI impI)
  show "sorted (map saving_rank (saving_of st d m # saving_states nd self envs st d m))"
    using saving_states_sorted [OF assms] .
next
  fix i j
  let ?outs = "retrieve_orders_seq nd self envs st d m"
  assume h: "i < j \<and> j < length envs \<and> saving_states nd self envs st d m ! i = Some SAVED"
  then have i: "i < length envs" and ij: "i < j" and j: "j < length envs" by simp_all
  let ?sti = "o_store (?outs ! i)"
  have sv: "saving_of ?sti d m = Some SAVED"
    using h i by (simp add: saving_states_def)
  have ok: "tracked_ok (logger ?sti) d m"
    using retrieve_orders_seq_tracked_ok [OF assms, of nd self envs] i by simp
  have dr: "drop (Suc i) ?outs = retrieve_orders_seq nd self (drop (Suc i) envs) ?sti d m"
    using retrieve_orders_seq_drop [OF i] .
  have "?outs ! j = drop (Suc i) ?outs ! (j - Suc i)"
    using ij j by simp
  moreover have "j - Suc i < length (drop (Suc i) ?outs)"
    using ij j by simp
  ultimately have mem: "?outs ! j \<in> set (retrieve_orders_seq nd self (drop (Suc i) envs) ?sti d m)"
    using dr by (metis nth_mem)
  from retrieve_orders_seq_saved [OF ok sv, of nd self "drop (Suc i) envs"] mem
  have "o_store (?outs ! j) = ?sti" and c: "o_calls (?outs ! j) = []" by blast+
  then show "saving_states nd self envs st d m ! j = Some SAVED"
    using sv j by (simp add: saving_states_def)
  show "o_calls (?outs ! j) = []" using c .
qed

theorem saving_status_progress_witness:
  "tracked_ok (logger store0) ''2021-02-08'' ''US''
   \<and> saving_states next_day0 retrieval0
         [mws_done, mws_empty, mws_throttled, mws_done, mws_throttled] store0
         ''2021-02-08'' ''US'' ! 3 = Some SAVED
   \<and> sorted (map saving_rank (saving_of store0 ''2021-02-08'' ''US''
        # saving_states next_day0 retrieval0
            [mws_done, mws_empty, mws_throttled, mws_done, mws_throttled] store0
            ''2021-02-08'' ''US''))
   \<and> saving_states next_day0 retrieval0
         [mws_done, mws_empty, mws_throttled, mws_done, mws_throttled] store0
         ''2021-02-08'' ''US'' ! 4 = Some SAVED
   \<and> o_calls (retrieve_orders_seq next_day0 retrieval0
         [mws_done, mws_empty, mws_throttled, mws_done, mws_throttled] store0
         ''2021-02-08'' ''US'' ! 4) = []"
proof -
  have s3: "saving_states next_day0 retrieval0
         [mws_done, mws_empty, mws_throttled, mws_done, mws_throttled] store0
         ''2021-02-08'' ''US'' ! 3 = Some SAVED"
    by (simp add: eval_five_calls)
  have "(3::nat) < 4 \<and> (4::nat) < length [mws_done, mws_empty, mws_throttled, mws_done, mws_throttled]
      \<and> saving_states next_day0 retrieval0
         [mws_done, mws_empty, mws_throttled, mws_done, mws_throttled] store0
         ''2021-02-08'' ''US'' ! 3 = Some SAVED"
    using s3 by simp
  then show ?thesis
    using saving_status_progress [OF eval_store0, of next_day0 retrieval0
      "[mws_done, mws_empty, mws_throttled, mws_done, mws_throttled]"] eval_store0 s3
    by blast
qed

text \<open>
  The claim C9 as it is stated fails: after an empty save, a later fetch that raises
  records SAVE\_FAILED, a step down in the order of the specification.
\<close>

theorem saving_status_order_counterexample:
  "saving_states next_day0 retrieval0 [mws_done, mws_empty, mws_throttled] store0
      ''2021-02-08'' ''US'' = [Some NOT_SAVED, Some EMPTY_SAVE, Some SAVE_FAILED]
   \<and> \<not> successively spec_progress
         (saving_states next_day0 retrieval0 [mws_done, mws_empty, mws_throttled] store0
            ''2021-02-08'' ''US'')"
  by (simp add: eval_three_calls spec_progress_def)


text \<open>The status update that raises, and the status update that follows it.\<close>

lemma repoll:
  assumes "nd d = Some nxt" "marketplaces self m = Some mid" "logger st (d, m) = Some e"
    and "processing_status e \<noteq> REQUEST_FAILED_name" "saving_status e \<noteq> SAVED"
    and "processing_status e \<noteq> ''_DONE_''"
  shows "\<exists>cs. o_calls (retrieve_orders nd self env st d m)
           = GetReportRequestList (request_id e) # cs"
proof -
  obtain oc le1 where us: "update_status env (e\<lparr>last_err_type := None\<rparr>) = (oc, le1)"
    by (cases "update_status env (e\<lparr>last_err_type := None\<rparr>)") auto
  show ?thesis
  proof (cases oc)
    case (PollReturn s)
    then show ?thesis using ro_poll_return [where nd = nd, OF assms] us by simp
  next
    case (PollRaise x)
    then show ?thesis using ro_poll_raise [where nd = nd, OF assms] us by simp
  next
    case PollDone
    then show ?thesis
      using ro_poll_done [where nd = nd, OF assms] us by (simp add: fetch_and_log_sel)
  qed
qed

lemma poll_failure_orders:
  assumes "nd d = Some nxt" and "marketplaces self m = Some mid"
    and "logger st (d, m) = Some e" and "day e = d" and "marketplace e = m"
    and "processing_status e \<noteq> REQUEST_FAILED_name" and "saving_status e \<noteq> SAVED"
    and "processing_status e \<noteq> ''_DONE_''"
    and "mws_get_report_request_list env (request_id e) = Inl x"
  shows "o_result (retrieve_orders nd self env st d m) = Inl x"
    and "logger (o_store (retrieve_orders nd self env st d m)) (d, m)
           = Some (e\<lparr>last_err_type := Some (str_type x)\<rparr>)"
    and "sink (o_store (retrieve_orders nd self env st d m)) = sink st"
    and "\<exists>cs. o_calls (retrieve_orders nd self env'
                  (o_store (retrieve_orders nd self env st d m)) d m)
               = GetReportRequestList (request_id e) # cs"
proof -
  have us: "update_status env (e\<lparr>last_err_type := None\<rparr>)
              = (PollRaise x, e\<lparr>last_err_type := Some (str_type x)\<rparr>)"
    using update_status_remote_raises [of env "e\<lparr>last_err_type := None\<rparr>" x] assms(9) by simp
  note eq = ro_poll_raise [where nd = nd, OF assms(1,2,3,6,7,8) us]
  show "o_result (retrieve_orders nd self env st d m) = Inl x" by (simp add: eq)
  show lg: "logger (o_store (retrieve_orders nd self env st d m)) (d, m)
           = Some (e\<lparr>last_err_type := Some (str_type x)\<rparr>)"
    using assms(4,5) by (simp add: eq log_info_def)
  show "sink (o_store (retrieve_orders nd self env st d m)) = sink st" by (simp add: eq)
  show "\<exists>cs. o_calls (retrieve_orders nd self env'
                  (o_store (retrieve_orders nd self env st d m)) d m)
               = GetReportRequestList (request_id e) # cs"
    using repoll [where nd = nd, OF assms(1,2) lg, of env'] assms(6,7,8) by simp
qed


section \<open>Properties of SpTabReportRetrieval\<close>

lemma wait_frame:
  "wait self rt now = (self1, sl) \<Longrightarrow>
     type_name self1 = type_name self \<and> tracker self1 = tracker self \<and> bulk self1 = bulk self"
  by (auto simp: wait_def Let_def split: if_splits RequestType.splits)

lemma wait_custom: "\<not> bulk self \<Longrightarrow> wait self rt now = (self, [])"
  by (simp add: wait_def)

lemma get_document_df_frame:
  "get_document_df self env k doc_id = (r, self1, ev) \<Longrightarrow>
     type_name self1 = type_name self \<and> tracker self1 = tracker self \<and> bulk self1 = bulk self"
  by (auto simp: get_document_df_def Let_def split: prod.splits sum.splits option.splits
           dest: wait_frame)

lemma create_report_request_type_name:
  "type_name (r_self (create_report_request self env k rt si ei mp)) = type_name self"
  by (auto simp: create_report_request_def Let_def split: prod.splits sum.splits option.splits
           dest: wait_frame)

lemma create_report_type_name:
  "type_name (r_self (create_report self env k)) = type_name self"
  by (simp add: create_report_def create_report_request_type_name
           split: prod.splits option.splits)

lemma status_exception_type_name:
  "type_name (r_self (status_exception self k e ev)) = type_name self"
  by (simp add: status_exception_def split: sum.splits)

lemma status_done_type_name:
  "type_name (r_self (status_done self env k res ev)) = type_name self"
  by (auto simp: status_done_def status_exception_type_name
           split: option.splits sum.splits prod.splits dest: get_document_df_frame)

lemma status_response_type_name:
  "type_name (r_self (status_response self env k res ev)) = type_name self"
  by (simp add: status_response_def status_exception_type_name status_done_type_name
           split: option.splits sum.splits)

lemma update_report_status_type_name:
  "type_name (r_self (update_report_status self env k)) = type_name self"
  by (auto simp: update_report_status_def status_exception_type_name status_response_type_name
           split: prod.splits sum.splits option.splits dest: wait_frame)

lemma retrieve_tracked_type_name:
  "type_name (r_self (retrieve_tracked self env k)) = type_name self"
  by (auto simp: retrieve_tracked_def create_report_type_name update_report_status_type_name
           split: sum.splits option.splits prod.splits dest: get_document_df_frame)

lemma retrieve_report_type_name:
  "type_name (r_self (retrieve_report self env mkt s e c n)) = type_name self"
  by (simp add: retrieve_report_def retrieve_tracked_type_name split: sum.splits)

lemma init_type_name:
  "init trk c n = Inr self \<Longrightarrow> type_name self = n \<and> in_TAB_REPORT_TYPES n"
  by (auto simp: init_def custom_mode_def split: if_splits tracker_arg.splits)

lemma reachable_type_name: "reachable self \<Longrightarrow> in_TAB_REPORT_TYPES (type_name self)"
proof (induction rule: reachable.induct)
  case (constructed trk credentials report_type_name self)
  then show ?case using init_type_name by blast
next
  case (after_bulk_mode self)
  then show ?case by (simp add: bulk_mode_def)
next
  case (after_custom_mode self)
  then show ?case by (simp add: custom_mode_def)
next
  case (after_retrieve_report self env mkt start_ds end_ds credentials report_type_name)
  then show ?case by (simp add: retrieve_report_type_name)
qed

text \<open>
  Claim C10.  \<open>__init__\<close> raises \<open>ValueError\<close> when \<open>report_type_name\<close> is \<open>None\<close>
  (the default of the parameter), whatever the other arguments are.  An object that
  \<open>__init__\<close> returns carries the name it was given, and that name is a key of
  \<open>TAB_REPORT_TYPES\<close>.  No method changes it, so on every object that can exist the
  choice of the report type name in \<open>retrieve_report\<close> never reaches the
  \<open>RuntimeError\<close> for two missing names.
\<close>

theorem init_requires_report_type_name:
  "init trk credentials None = Inl (ValueError ''Invalid Tab report type name None'')
   \<and> (init trk credentials report_type_name = Inr self \<longrightarrow>
        type_name self = report_type_name \<and> in_TAB_REPORT_TYPES (type_name self))
   \<and> (reachable self' \<longrightarrow>
        (\<exists>name. type_name self' = Some name \<and> map_of TAB_REPORT_TYPES name \<noteq> None) \<and>
        choose_type_name self' per_call_name \<noteq> Inl (RuntimeError MSG_NO_TYPE_NAME))"
proof (intro conjI impI)
  show "init trk credentials None = Inl (ValueError ''Invalid Tab report type name None'')"
    by (simp add: init_def in_TAB_REPORT_TYPES_def str_opt_def)
next
  assume "init trk credentials report_type_name = Inr self"
  then show "type_name self = report_type_name" and "in_TAB_REPORT_TYPES (type_name self)"
    using init_type_name by blast+
next
  assume r: "reachable self'"
  from reachable_type_name [OF r]
  show "\<exists>name. type_name self' = Some name \<and> map_of TAB_REPORT_TYPES name \<noteq> None"
    by (auto simp: in_TAB_REPORT_TYPES_def split: option.splits)
  then show "choose_type_name self' per_call_name \<noteq> Inl (RuntimeError MSG_NO_TYPE_NAME)"
    by (auto simp: choose_type_name_def split: option.splits)
qed

theorem init_requires_report_type_name_witness:
  "init (ATracker Map.empty) (Some ''credentials'') (Some ''Inventory Report'') = Inr sp_self_fresh
   \<and> reachable (bulk_mode sp_self_fresh)
   \<and> type_name sp_self_fresh = Some ''Inventory Report''
   \<and> choose_type_name (bulk_mode sp_self_fresh) None \<noteq> Inl (RuntimeError MSG_NO_TYPE_NAME)"
proof -
  have i: "init (ATracker Map.empty) (Some ''credentials'') (Some ''Inventory Report'')
             = Inr sp_self_fresh"
    by (simp add: init_def in_TAB_REPORT_TYPES_def TAB_REPORT_TYPES_def custom_mode_def
          sp_self_fresh_def)
  have r: "reachable (bulk_mode sp_self_fresh)"
    by (rule after_bulk_mode, rule constructed, rule i)
  show ?thesis
    using i r init_requires_report_type_name [of "ATracker Map.empty" "Some ''credentials''"
        "Some ''Inventory Report''" sp_self_fresh "bulk_mode sp_self_fresh" None]
    by simp
qed

lemma tab_inventory:
  "map_of TAB_REPORT_TYPES ''Inventory Report'' = Some ''GET_FLAT_FILE_OPEN_LISTINGS_DATA''"
  by (simp add: TAB_REPORT_TYPES_def)

lemmas retrieve_report_eval =
  retrieve_report_def choose_type_name_def choose_credentials_def retrieve_tracked_def
  is_report_created_def get_report_status_def get_report_id_def get_report_document_id_def
  DictTracker_update_report_status_def update_report_document_id_def init_report_tracking_def
  create_report_def create_report_request_def update_report_status_def status_response_def
  status_done_def status_exception_def get_document_df_def output_report_doc_def wait_def
  WAITING_STATUS_def NA_MARKETPLACE_COUNTRY_CODESET_def EUR_MARKETPLACE_COUNTRY_CODESET_def
  tab_inventory remote_requests_def sp_self_fresh_def sp_self_queued_def key0_def
  sp_done_def sp_throttled_def sp_offline_def quota_exceeded_def connection_error_def

lemma remote_requests_Sleep [simp]: "remote_requests (map Sleep sl) = []"
  by (induction sl) (simp_all add: remote_requests_def)

lemma remote_requests_append [simp]:
  "remote_requests (xs @ ys) = remote_requests xs @ remote_requests ys"
  by (simp add: remote_requests_def)












lemma retrieve_report_resolved:
  "choose_type_name self rtn = Inr name \<Longrightarrow> choose_credentials self cr = Inr c \<Longrightarrow>
     retrieve_report self env mkt s e cr rtn
       = retrieve_tracked (self\<lparr>rep := Some c\<rparr>) env (name, mkt, s, e)"
  by (simp add: retrieve_report_def)













text \<open>The status request that raises.\<close>

lemma poll_failure_report:
  assumes "tracker self k = Some te" and "Status te \<in> WAITING_STATUS"
    and "ReportId te = Some rid" and "rid \<noteq> []"
    and "sp_get_report env rid = Inl x"
  shows "is_SellingApiException x \<Longrightarrow>
           r_result (retrieve_tracked self env k) = Inr (EXCEPTION_OCCURRED, OutStatus (Status te))
           \<and> tracker (r_self (retrieve_tracked self env k)) k
               = Some (te\<lparr>Errors := Some (exn_class x @ exn_str x)\<rparr>)"
    and "\<not> is_SellingApiException x \<Longrightarrow>
           r_result (retrieve_tracked self env k) = Inl x
           \<and> tracker (r_self (retrieve_tracked self env k)) = tracker self"
    and "remote_requests (r_events (retrieve_tracked self env k)) = [GetReportRequest rid]"
proof -
  obtain self1 sl where w: "wait self GET_REPORT (time_at env GET_REPORT) = (self1, sl)"
    by (cases "wait self GET_REPORT (time_at env GET_REPORT)") auto
  have eq: "retrieve_tracked self env k
              = status_exception self1 k x (map Sleep sl @ [GetReportRequest rid])"
    using assms wait_frame [OF w]
    by (simp add: retrieve_tracked_def is_report_created_def get_report_status_def
          update_report_status_def w get_report_id_def)
  show "is_SellingApiException x \<Longrightarrow>
           r_result (retrieve_tracked self env k) = Inr (EXCEPTION_OCCURRED, OutStatus (Status te))
           \<and> tracker (r_self (retrieve_tracked self env k)) k
               = Some (te\<lparr>Errors := Some (exn_class x @ exn_str x)\<rparr>)"
    using assms wait_frame [OF w]
    by (simp add: eq status_exception_def get_report_status_def
          DictTracker_update_report_status_def)
  show "\<not> is_SellingApiException x \<Longrightarrow>
           r_result (retrieve_tracked self env k) = Inl x
           \<and> tracker (r_self (retrieve_tracked self env k)) = tracker self"
    using wait_frame [OF w] by (simp add: eq status_exception_def)
  show "remote_requests (r_events (retrieve_tracked self env k)) = [GetReportRequest rid]"
    by (simp add: eq status_exception_def remote_requests_def split: sum.splits)
qed

lemma eval_sp_hyps:
  "choose_type_name sp_self_fresh None = Inr ''Inventory Report''"
  "choose_credentials sp_self_fresh None = Inr ''credentials''"
  "choose_type_name sp_self_queued None = Inr ''Inventory Report''"
  "choose_credentials sp_self_queued None = Inr ''credentials''"
  "tracker sp_self_fresh (''Inventory Report'', ''US'', ''2021-02-08'', ''2021-02-09'') = None"
  "''US'' \<in> NA_MARKETPLACE_COUNTRY_CODESET \<or> ''US'' \<in> EUR_MARKETPLACE_COUNTRY_CODESET"
  "isoformat_of sp_throttled ''2021-02-08'' = Some ''2021-02-08T00:00:00''"
  "isoformat_of sp_throttled ''2021-02-09'' = Some ''2021-02-09T00:00:00''"
  "sp_create_report sp_throttled ''GET_FLAT_FILE_OPEN_LISTINGS_DATA'' ''2021-02-08T00:00:00''
      ''2021-02-09T00:00:00'' (marketplace_id_of sp_throttled ''US'') = Inl quota_exceeded"
  "is_SellingApiException quota_exceeded"
  "\<not> is_SellingApiException connection_error"
  by (simp_all add: retrieve_report_eval)

lemma eval_sp_queued:
  "tracker sp_self_queued (''Inventory Report'', ''US'', ''2021-02-08'', ''2021-02-09'')
     = Some \<lparr>ReportId = Some ''REP1'', Errors = None, Status = Some ''IN_QUEUE'',
             DocumentId = None\<rparr>"
  "Some ''IN_QUEUE'' \<in> WAITING_STATUS"
  "sp_get_report sp_throttled ''REP1'' = Inl quota_exceeded"
  "sp_get_report sp_offline ''REP1'' = Inl connection_error"
  by (simp_all add: retrieve_report_eval)



lemma eval_sp_queued_offline:
  "r_result (retrieve_report sp_self_queued sp_offline ''US'' ''2021-02-08'' ''2021-02-09''
      None None) = Inl connection_error"
  "tracker (r_self (retrieve_report sp_self_queued sp_offline ''US'' ''2021-02-08''
      ''2021-02-09'' None None)) key0
     = Some \<lparr>ReportId = Some ''REP1'', Errors = None, Status = Some ''IN_QUEUE'',
             DocumentId = None\<rparr>"
  by (simp_all add: retrieve_report_eval)







section \<open>Failures of the remote calls, in both libraries\<close>

lemma eval_amazon_hyps:
  "next_day0 ''2021-02-08'' = Some ''2021-02-09''"
  "marketplaces retrieval0 ''US'' = Some ''ATVPDKIKX0DER''"
  "logger store0 (''2021-02-08'', ''US'') = None"
  "mws_request_report mws_throttled REPORT_TYPE ''2021-02-08'' ''2021-02-09'' ''ATVPDKIKX0DER''
     = Inl throttled"
  "logger store_submitted (''2021-02-08'', ''US'') = Some entry_submitted"
  "day entry_submitted = ''2021-02-08''" "marketplace entry_submitted = ''US''"
  "processing_status entry_submitted \<noteq> REQUEST_FAILED_name"
  "saving_status entry_submitted \<noteq> SAVED"
  "processing_status entry_submitted \<noteq> ''_DONE_''"
  "mws_get_report_request_list mws_throttled (request_id entry_submitted) = Inl throttled"
  by (simp_all add: retrieve_orders_eval store_submitted_def entry_submitted_def)




text \<open>
  Claim C4, as the code has it.  Order retrieval: when the status request raises, the
  call raises the same exception, the entry afterwards is the entry before with the type
  of the exception as \<open>last_err_type\<close> (so the processing status is the one known before),
  and the next call starts with the status request again.  Tab report retrieval: when the
  status request raises a \<open>SellingApiException\<close>, the call returns \<open>EXCEPTION_OCCURRED\<close>
  with the status known before, and the entry afterwards is the entry before with the
  text of the exception as \<open>Errors\<close>; when it raises any other exception, the call raises
  it and the tracker is as before, the status kept and no error recorded.
\<close>

theorem poll_failure_preserves_status:
  "(nd d = Some nxt \<and> marketplaces self m = Some mid
      \<and> logger st (d, m) = Some e \<and> day e = d \<and> marketplace e = m
      \<and> processing_status e \<noteq> REQUEST_FAILED_name \<and> saving_status e \<noteq> SAVED
      \<and> processing_status e \<noteq> ''_DONE_''
      \<and> mws_get_report_request_list env (request_id e) = Inl x
    \<longrightarrow> o_result (retrieve_orders nd self env st d m) = Inl x
       \<and> logger (o_store (retrieve_orders nd self env st d m)) (d, m)
           = Some (e\<lparr>last_err_type := Some (str_type x)\<rparr>)
       \<and> (\<forall>env'. \<exists>cs. o_calls (retrieve_orders nd self env'
                           (o_store (retrieve_orders nd self env st d m)) d m)
                        = GetReportRequestList (request_id e) # cs))
   \<and> (choose_type_name sp rtn = Inr name \<and> choose_credentials sp cr = Inr c
      \<and> tracker sp (name, mkt, sd, ed) = Some te \<and> Status te \<in> WAITING_STATUS
      \<and> ReportId te = Some rid \<and> rid \<noteq> [] \<and> sp_get_report senv rid = Inl y
    \<longrightarrow> (is_SellingApiException y \<longrightarrow>
           r_result (retrieve_report sp senv mkt sd ed cr rtn)
             = Inr (EXCEPTION_OCCURRED, OutStatus (Status te))
           \<and> tracker (r_self (retrieve_report sp senv mkt sd ed cr rtn)) (name, mkt, sd, ed)
               = Some (te\<lparr>Errors := Some (exn_class y @ exn_str y)\<rparr>))
       \<and> (\<not> is_SellingApiException y \<longrightarrow>
           r_result (retrieve_report sp senv mkt sd ed cr rtn) = Inl y
           \<and> tracker (r_self (retrieve_report sp senv mkt sd ed cr rtn)) = tracker sp))"
proof (intro conjI impI)
  assume h: "nd d = Some nxt \<and> marketplaces self m = Some mid
      \<and> logger st (d, m) = Some e \<and> day e = d \<and> marketplace e = m
      \<and> processing_status e \<noteq> REQUEST_FAILED_name \<and> saving_status e \<noteq> SAVED
      \<and> processing_status e \<noteq> ''_DONE_''
      \<and> mws_get_report_request_list env (request_id e) = Inl x"
  then have h': "nd d = Some nxt" "marketplaces self m = Some mid"
      "logger st (d, m) = Some e" "day e = d" "marketplace e = m"
      "processing_status e \<noteq> REQUEST_FAILED_name" "saving_status e \<noteq> SAVED"
      "processing_status e \<noteq> ''_DONE_''"
      "mws_get_report_request_list env (request_id e) = Inl x" by blast+
  note f = poll_failure_orders [where nd = nd, OF h']
  show "o_result (retrieve_orders nd self env st d m) = Inl x" using f(1) .
  show "logger (o_store (retrieve_orders nd self env st d m)) (d, m)
           = Some (e\<lparr>last_err_type := Some (str_type x)\<rparr>)" using f(2) .
  show "\<forall>env'. \<exists>cs. o_calls (retrieve_orders nd self env'
                           (o_store (retrieve_orders nd self env st d m)) d m)
                        = GetReportRequestList (request_id e) # cs"
    using f(4) by blast
next
  let ?k = "(name, mkt, sd, ed)"
  let ?out = "retrieve_report sp senv mkt sd ed cr rtn"
  assume h: "choose_type_name sp rtn = Inr name \<and> choose_credentials sp cr = Inr c
      \<and> tracker sp (name, mkt, sd, ed) = Some te \<and> Status te \<in> WAITING_STATUS
      \<and> ReportId te = Some rid \<and> rid \<noteq> [] \<and> sp_get_report senv rid = Inl y"
  then have n: "choose_type_name sp rtn = Inr name" and c: "choose_credentials sp cr = Inr c"
    and t: "tracker (sp\<lparr>rep := Some c\<rparr>) ?k = Some te"
    and v: "Status te \<in> WAITING_STATUS" "ReportId te = Some rid" "rid \<noteq> []"
      "sp_get_report senv rid = Inl y" by simp_all
  have eq: "?out = retrieve_tracked (sp\<lparr>rep := Some c\<rparr>) senv ?k"
    using retrieve_report_resolved [OF n c] .
  note f = poll_failure_report [OF t v]
  {
    assume "is_SellingApiException y"
    then show "r_result ?out = Inr (EXCEPTION_OCCURRED, OutStatus (Status te))"
      and "tracker (r_self ?out) ?k = Some (te\<lparr>Errors := Some (exn_class y @ exn_str y)\<rparr>)"
      using f(1) by (simp_all add: eq)
  }
  {
    assume "\<not> is_SellingApiException y"
    then show "r_result ?out = Inl y" and "tracker (r_self ?out) = tracker sp"
      using f(2) by (simp_all add: eq)
  }
qed

theorem poll_failure_preserves_status_witness:
  "o_result (retrieve_orders next_day0 retrieval0 mws_throttled store_submitted
      ''2021-02-08'' ''US'') = Inl throttled
   \<and> logger (o_store (retrieve_orders next_day0 retrieval0 mws_throttled store_submitted
        ''2021-02-08'' ''US'')) (''2021-02-08'', ''US'')
       = Some (entry_submitted\<lparr>last_err_type := Some (str_type throttled)\<rparr>)
   \<and> r_result (retrieve_report sp_self_queued sp_throttled ''US'' ''2021-02-08'' ''2021-02-09''
        None None) = Inr (EXCEPTION_OCCURRED, OutStatus (Some ''IN_QUEUE''))
   \<and> r_result (retrieve_report sp_self_queued sp_offline ''US'' ''2021-02-08'' ''2021-02-09''
        None None) = Inl connection_error
   \<and> tracker (r_self (retrieve_report sp_self_queued sp_offline ''US'' ''2021-02-08''
        ''2021-02-09'' None None)) = tracker sp_self_queued"
proof -
  have a: "o_result (retrieve_orders next_day0 retrieval0 mws_throttled store_submitted
      ''2021-02-08'' ''US'') = Inl throttled
   \<and> logger (o_store (retrieve_orders next_day0 retrieval0 mws_throttled store_submitted
        ''2021-02-08'' ''US'')) (''2021-02-08'', ''US'')
       = Some (entry_submitted\<lparr>last_err_type := Some (str_type throttled)\<rparr>)"
    using poll_failure_preserves_status [of next_day0 "''2021-02-08''" "''2021-02-09''"
        retrieval0 "''US''" "''ATVPDKIKX0DER''" store_submitted entry_submitted mws_throttled
        throttled]
      eval_amazon_hyps(1,2,5-11) by blast
  have b: "r_result (retrieve_report sp_self_queued sp_throttled ''US'' ''2021-02-08''
        ''2021-02-09'' None None) = Inr (EXCEPTION_OCCURRED, OutStatus (Some ''IN_QUEUE''))"
    using poll_failure_preserves_status [where sp = sp_self_queued and rtn = None
        and name = "''Inventory Report''" and cr = None and c = "''credentials''"
        and mkt = "''US''" and sd = "''2021-02-08''" and ed = "''2021-02-09''"
        and te = "\<lparr>ReportId = Some ''REP1'', Errors = None, Status = Some ''IN_QUEUE'',
                     DocumentId = None\<rparr>"
        and rid = "''REP1''" and senv = sp_throttled and y = quota_exceeded]
      eval_sp_hyps(3,4,10) eval_sp_queued(1,2,3) by simp
  have c: "r_result (retrieve_report sp_self_queued sp_offline ''US'' ''2021-02-08''
        ''2021-02-09'' None None) = Inl connection_error
   \<and> tracker (r_self (retrieve_report sp_self_queued sp_offline ''US'' ''2021-02-08''
        ''2021-02-09'' None None)) = tracker sp_self_queued"
    using poll_failure_preserves_status [where sp = sp_self_queued and rtn = None
        and name = "''Inventory Report''" and cr = None and c = "''credentials''"
        and mkt = "''US''" and sd = "''2021-02-08''" and ed = "''2021-02-09''"
        and te = "\<lparr>ReportId = Some ''REP1'', Errors = None, Status = Some ''IN_QUEUE'',
                     DocumentId = None\<rparr>"
        and rid = "''REP1''" and senv = sp_offline and y = connection_error]
      eval_sp_hyps(3,4,11) eval_sp_queued(1,2,4) by simp
  from a b c show ?thesis by blast
qed

text \<open>
  The claim C4 as it is stated fails for tab reports: a status request that raises an
  exception that is no \<open>SellingApiException\<close> leaves the tracked entry without any record
  of the error.
\<close>

theorem poll_failure_unrecorded_counterexample:
  "sp_get_report sp_offline ''REP1'' = Inl connection_error
   \<and> r_result (retrieve_report sp_self_queued sp_offline ''US'' ''2021-02-08'' ''2021-02-09''
        None None) = Inl connection_error
   \<and> tracker (r_self (retrieve_report sp_self_queued sp_offline ''US'' ''2021-02-08''
        ''2021-02-09'' None None)) key0
       = Some \<lparr>ReportId = Some ''REP1'', Errors = None, Status = Some ''IN_QUEUE'',
               DocumentId = None\<rparr>"
  by (simp add: eval_sp_queued_offline eval_sp_queued)














section \<open>The rate limiters\<close>

lemma wait_blocks_as_spec_permit:
  assumes "bulk self" and "0 < now"
  shows "snd (wait self rt now) = snd (spec_permit 60 (window_of self rt) now)"
    and "remainingInBurst (window_of (fst (wait self rt now)) rt)
           = remainingInBurst (fst (spec_permit 60 (window_of self rt) now))"
    and "burstCapacity (window_of (fst (wait self rt now)) rt)
           = burstCapacity (fst (spec_permit 60 (window_of self rt) now))"
    and "minSpacing (window_of (fst (wait self rt now)) rt)
           = minSpacing (fst (spec_permit 60 (window_of self rt) now))"
    and "spec_spacing_block (window_of self rt) now = [] \<Longrightarrow>
           window_of (fst (wait self rt now)) rt = fst (spec_permit 60 (window_of self rt) now)"
  using assms
  by (cases rt; auto simp: wait_def spec_permit_def spec_spacing_block_def window_of_def Let_def
        split: if_splits)+

lemma wait_other_windows:
  assumes "rt' \<noteq> rt"
  shows "window_of (fst (wait self rt now)) rt' = window_of self rt'"
  using assms
  by (cases rt; cases rt') (auto simp: wait_def window_of_def Let_def)

lemma make_request_steps:
  "make_request self res
     = (res,
        self\<lparr>req_count := (if req_count self = request_burst_size self then 0
                           else req_count self) + 1\<rparr>,
        (if req_count self = request_burst_size self then [burst_pause_time self] else [])
          @ [request_pause_time self])"
  by (simp add: make_request_def Let_def)

lemma eval_after_create:
  "bulk sp_self_after_create"
  "window_of sp_self_after_create CREATE_REPORT
     = \<lparr>burstCapacity = 15, remainingInBurst = 14, minSpacing = 60,
        lastRequestTime = Some 1000\<rparr>"
  "spec_spacing_block (window_of (bulk_mode sp_self_fresh) CREATE_REPORT) 1000 = []"
  "spec_permit 60 (window_of (bulk_mode sp_self_fresh) CREATE_REPORT) 1000
     = (\<lparr>burstCapacity = 15, remainingInBurst = 14, minSpacing = 60,
         lastRequestTime = Some 1000\<rparr>, [])"
  "snd (spec_permit 60 (window_of sp_self_after_create CREATE_REPORT) 1001) = [59]"
  "remainingInBurst (fst (spec_permit 60 (window_of sp_self_after_create CREATE_REPORT) 1001))
     = 13"
  by (simp_all add: sp_self_after_create_def wait_def spec_permit_def spec_spacing_block_def
        window_of_def bulk_mode_def Let_def)

text \<open>
  Claim C7, as the code has it.  In bulk mode \<open>__wait\<close>, entered at the clock reading
  \<open>now\<close>, blocks for each of the three request types for the durations for which the three
  steps of the specification block on the window of that type, with a cooldown of 60
  seconds: the rest of the minimum spacing in step 1, the cooldown in step 3.  It leaves
  in the window the remaining requests the three steps leave (one less, or the burst
  capacity again after the cooldown), and the burst capacity and minimum spacing as they
  are; when step 1 does not block, the whole window is the one the three steps leave, the
  last request time included.  The windows of the other two types stay as they are.  Out
  of bulk mode it does nothing.  \<open>__make_request\<close> does something else: it blocks for the
  burst pause first when the count of requests has reached the burst size (and resets the
  count), then counts the request and always blocks for the whole request pause.
\<close>

theorem wait_follows_the_three_steps:
  "(bulk self \<and> 0 < now
    \<longrightarrow> snd (wait self rt now) = snd (spec_permit 60 (window_of self rt) now)
       \<and> remainingInBurst (window_of (fst (wait self rt now)) rt)
           = remainingInBurst (fst (spec_permit 60 (window_of self rt) now))
       \<and> burstCapacity (window_of (fst (wait self rt now)) rt)
           = burstCapacity (fst (spec_permit 60 (window_of self rt) now))
       \<and> minSpacing (window_of (fst (wait self rt now)) rt)
           = minSpacing (fst (spec_permit 60 (window_of self rt) now))
       \<and> (spec_spacing_block (window_of self rt) now = []
          \<longrightarrow> window_of (fst (wait self rt now)) rt
                = fst (spec_permit 60 (window_of self rt) now))
       \<and> (\<forall>rt'. rt' \<noteq> rt \<longrightarrow> window_of (fst (wait self rt now)) rt' = window_of self rt'))
   \<and> (\<not> bulk self \<longrightarrow> wait self rt now = (self, []))
   \<and> make_request orders res
       = (res,
          orders\<lparr>req_count := (if req_count orders = request_burst_size orders then 0
                               else req_count orders) + 1\<rparr>,
          (if req_count orders = request_burst_size orders then [burst_pause_time orders]
           else []) @ [request_pause_time orders])"
  using wait_blocks_as_spec_permit [of self now rt] wait_other_windows [of _ rt self now]
    wait_custom [of self rt now] make_request_steps [of orders res]
  by blast

theorem wait_follows_the_three_steps_witness:
  "bulk (bulk_mode sp_self_fresh) \<and> (0::real) < 1000
   \<and> spec_spacing_block (window_of (bulk_mode sp_self_fresh) CREATE_REPORT) 1000 = []
   \<and> (window_of (fst (wait (bulk_mode sp_self_fresh) CREATE_REPORT 1000)) CREATE_REPORT,
       snd (wait (bulk_mode sp_self_fresh) CREATE_REPORT 1000))
      = (\<lparr>burstCapacity = 15, remainingInBurst = 14, minSpacing = 60,
          lastRequestTime = Some 1000\<rparr>, [])
   \<and> window_of (fst (wait (bulk_mode sp_self_fresh) CREATE_REPORT 1000)) GET_REPORT
      = window_of (bulk_mode sp_self_fresh) GET_REPORT
   \<and> bulk sp_self_after_create \<and> (0::real) < 1001
   \<and> snd (wait sp_self_after_create CREATE_REPORT 1001) = [59]
   \<and> remainingInBurst (window_of (fst (wait sp_self_after_create CREATE_REPORT 1001))
        CREATE_REPORT) = 13
   \<and> \<not> bulk sp_self_fresh
   \<and> wait sp_self_fresh GET_REPORT 1000 = (sp_self_fresh, [])"
proof -
  have b: "bulk (bulk_mode sp_self_fresh)" by (simp add: bulk_mode_def)
  have nb: "\<not> bulk sp_self_fresh" by (simp add: sp_self_fresh_def)
  have "GET_REPORT \<noteq> CREATE_REPORT" by simp
  then have 1: "(window_of (fst (wait (bulk_mode sp_self_fresh) CREATE_REPORT 1000)) CREATE_REPORT,
       snd (wait (bulk_mode sp_self_fresh) CREATE_REPORT 1000))
      = (\<lparr>burstCapacity = 15, remainingInBurst = 14, minSpacing = 60,
          lastRequestTime = Some 1000\<rparr>, [])
   \<and> window_of (fst (wait (bulk_mode sp_self_fresh) CREATE_REPORT 1000)) GET_REPORT
      = window_of (bulk_mode sp_self_fresh) GET_REPORT"
    using wait_follows_the_three_steps [of "bulk_mode sp_self_fresh" 1000 CREATE_REPORT
        "SP_Orders_Retrieval_init None None None" "Inr ()"] b eval_after_create(3,4)
    by auto
  have 2: "snd (wait sp_self_after_create CREATE_REPORT 1001) = [59]
   \<and> remainingInBurst (window_of (fst (wait sp_self_after_create CREATE_REPORT 1001))
        CREATE_REPORT) = 13"
    using wait_follows_the_three_steps [of sp_self_after_create 1001 CREATE_REPORT
        "SP_Orders_Retrieval_init None None None" "Inr ()"] eval_after_create(1,5,6)
    by auto
  have 3: "wait sp_self_fresh GET_REPORT 1000 = (sp_self_fresh, [])"
    using wait_follows_the_three_steps [of sp_self_fresh 1000 GET_REPORT
        "SP_Orders_Retrieval_init None None None" "Inr ()"] nb by auto
  show ?thesis using 1 2 3 b nb eval_after_create(1,3) by simp
qed

text \<open>
  The claim C7 as it is stated fails for \<open>__make_request\<close>: the first request of a new
  object blocks for the request pause, where the three steps block for nothing.
\<close>

theorem make_request_first_request_counterexample:
  "snd (snd (make_request (SP_Orders_Retrieval_init None None None) (Inr ()))) = [2 / 10]
   \<and> snd (spec_permit 30 orders_window_fresh 1000) = []"
  by (simp add: make_request_def SP_Orders_Retrieval_init_def spec_permit_def
        spec_spacing_block_def orders_window_fresh_def Let_def)

lemma issue_times_create_step:
  assumes "bulk self"
  shows "issue_times self CREATE_REPORT clock (g # gs) =
     (clock + g
        + (if t_last_report_create self > 0 \<and> clock + g - t_last_report_create self < 60
           then 60 - (clock + g - t_last_report_create self) else 0)
        + (if report_create_left self - 1 = 0 then 60 else 0))
     # issue_times
         (self\<lparr>t_last_report_create := clock + g,
               report_create_left :=
                 (if report_create_left self - 1 = 0 then 15 else report_create_left self - 1)\<rparr>)
         CREATE_REPORT
         (clock + g
           + (if t_last_report_create self > 0 \<and> clock + g - t_last_report_create self < 60
              then 60 - (clock + g - t_last_report_create self) else 0)
           + (if report_create_left self - 1 = 0 then 60 else 0))
         gs"
  using assms by (simp add: wait_def Let_def)

lemma bulk_mode_fresh:
  "bulk (bulk_mode sp_self_fresh)"
  "t_last_report_create (bulk_mode sp_self_fresh) = - 1"
  "report_create_left (bulk_mode sp_self_fresh) = 15"
  by (simp_all add: bulk_mode_def)

text \<open>
  Claim C8 fails on the code.  In bulk mode, sixteen CREATE REPORT requests, the first
  at time 1000 and each of the others asked for one second after the one before was
  issued: the second and the third are issued one second apart, and all sixteen are
  issued within 488 seconds, inside one window of 15 times 60 seconds.
\<close>

theorem create_requests_exceed_rate:
  "issue_times (bulk_mode sp_self_fresh) CREATE_REPORT 0
      [1000, 1, 1, 1, 1, 1, 1, 1, 1, 1, 1, 1, 1, 1, 1, 1]
     = [1000, 1060, 1061, 1121, 1122, 1182, 1183, 1243, 1244, 1304, 1305, 1365, 1366, 1426,
        1487, 1488]
   \<and> length (filter (\<lambda>t. 1000 \<le> t \<and> t < 1000 + 15 * 60)
        (issue_times (bulk_mode sp_self_fresh) CREATE_REPORT 0
           [1000, 1, 1, 1, 1, 1, 1, 1, 1, 1, 1, 1, 1, 1, 1, 1])) = 16"
proof -
  have "issue_times (bulk_mode sp_self_fresh) CREATE_REPORT 0
      [1000, 1, 1, 1, 1, 1, 1, 1, 1, 1, 1, 1, 1, 1, 1, 1]
     = [1000, 1060, 1061, 1121, 1122, 1182, 1183, 1243, 1244, 1304, 1305, 1365, 1366, 1426,
        1487, 1488]"
    by (simp add: issue_times_create_step bulk_mode_fresh del: issue_times.simps(2))
  then show ?thesis by simp
qed

end
